theory Spec2Isabelle
  imports Complex_Main "HOL-Library.AList" "HOL-Library.Sublist"
begin

section \<open>Process environment\<close>

text \<open>
  The hooks are short-lived Python processes; all state they share is the file system.
  A Python \<open>str\<close> is a \<open>string\<close> with one \<open>char\<close> per code point, and a
  file holds bytes; the texts these scripts write are ASCII (\<open>json.dumps\<close> escapes
  everything else), where the two coincide. A path is the string that \<open>str(Path)\<close>
  gives, joined with the POSIX separator.
\<close>

type_synonym path = string

type_synonym environ = "(string \<times> string) list"

definition path_join :: "path \<Rightarrow> string \<Rightarrow> path" where
  \<comment> \<open>\<open>Path / name\<close> for a relative name\<close>
  "path_join p name = p @ ''/'' @ name"

definition path_parent :: "path \<Rightarrow> path" where
  \<comment> \<open>\<open>Path.parent\<close>: the path without its last component\<close>
  "path_parent p = rev (tl (dropWhile (\<lambda>c. c \<noteq> CHR ''/'') (rev p)))"

definition path_name :: "path \<Rightarrow> string" where
  \<comment> \<open>\<open>Path.name\<close>: the last component\<close>
  "path_name p = rev (takeWhile (\<lambda>c. c \<noteq> CHR ''/'') (rev p))"

definition environ_get :: "environ \<Rightarrow> string \<Rightarrow> string option" where
  \<comment> \<open>\<open>os.environ.get(key)\<close>\<close>
  "environ_get env key = map_of env key"

definition environ_get_default :: "environ \<Rightarrow> string \<Rightarrow> string \<Rightarrow> string" where
  \<comment> \<open>\<open>os.environ.get(key, default)\<close>\<close>
  "environ_get_default env key dflt = (case map_of env key of None \<Rightarrow> dflt | Some v \<Rightarrow> v)"

definition slice_last :: "nat \<Rightarrow> 'a list \<Rightarrow> 'a list" where
  \<comment> \<open>Python \<open>s[-n:]\<close> for \<open>n > 0\<close>: the last \<open>n\<close> items, all of \<open>s\<close> when it is shorter\<close>
  "slice_last n s = drop (length s - n) s"

text \<open>
  What one invocation reads from its surroundings. The clock is read once: the calls of
  \<open>datetime.now()\<close> inside one invocation are taken to see the same instant, of which
  \<open>strftime\<close> gives the local rendering for a format, \<open>utc_strftime\<close> the UTC one and
  \<open>isoformat\<close> the ISO-8601 one; \<open>now\<close> is its POSIX timestamp in seconds.
  \<open>stdin\<close> is \<open>None\<close> when \<open>sys.stdin.read()\<close> raises.
\<close>

record proc =
  home :: path
  cwd :: path
  tmpdir :: path
  environ :: environ
  stdin :: "string option"
  now :: rat
  strftime :: "string \<Rightarrow> string"
  utc_strftime :: "string \<Rightarrow> string"
  isoformat :: string

section \<open>Python values and library functions\<close>

datatype pyfloat = Finite rat | PosInf | NegInf | NaN

datatype json =
    JNull
  | JBool bool
  | JInt int
  | JFloat pyfloat
  | JStr string
  | JList "json list"
  | JDict "(string \<times> json) list"

datatype py_error =
    OSError | PermissionError | ValueError | UnicodeDecodeError | JSONDecodeError | TypeError
  | AttributeError | ReError

definition is_ValueError :: "py_error \<Rightarrow> bool" where
  \<comment> \<open>\<open>UnicodeDecodeError\<close> and \<open>json.JSONDecodeError\<close> are subclasses of \<open>ValueError\<close>\<close>
  "is_ValueError e = (e = ValueError \<or> e = UnicodeDecodeError \<or> e = JSONDecodeError)"

text \<open>
  The functions of the Python library whose results the scripts only pass on are
  parameters of the model: \<open>json.loads\<close> (\<open>None\<close> when it raises
  \<open>JSONDecodeError\<close>), \<open>json.dumps\<close> with and without \<open>indent=2\<close>, \<open>str()\<close> of a
  value that is not a \<open>str\<close>, the UTF-8 decoding done by \<open>read_text\<close> (\<open>None\<close> when it
  raises \<open>UnicodeDecodeError\<close>), \<open>re.compile\<close> (\<open>None\<close> when it raises \<open>re.error\<close>,
  otherwise what \<open>regex.match\<close> says of a name), the match of a name against a glob
  pattern of \<open>Path.glob\<close>, and the normal form that \<open>str(Path(s))\<close> gives a path written
  as \<open>s\<close>. Where a handler tells \<open>PermissionError\<close> from the other subclasses of
  \<open>OSError\<close>, \<open>OSError\<close> stands for the others.
\<close>

record pylib =
  loads :: "string \<Rightarrow> json option"
  dumps :: "json \<Rightarrow> string"
  dumps_indent :: "json \<Rightarrow> string"
  str_of :: "json \<Rightarrow> string"
  decode :: "string \<Rightarrow> string option"
  re_compile :: "string \<Rightarrow> (string \<Rightarrow> bool) option"
  fnmatch :: "string \<Rightarrow> string \<Rightarrow> bool"
  path_of :: "string \<Rightarrow> path"

definition py_str :: "pylib \<Rightarrow> json \<Rightarrow> string" where
  \<comment> \<open>\<open>str(v)\<close>: a \<open>str\<close> is returned as it is\<close>
  "py_str lib v = (case v of JStr s \<Rightarrow> s | _ \<Rightarrow> str_of lib v)"

definition dict_get :: "(string \<times> json) list \<Rightarrow> string \<Rightarrow> json \<Rightarrow> json" where
  \<comment> \<open>\<open>d.get(key, default)\<close>\<close>
  "dict_get d key dflt = (case map_of d key of None \<Rightarrow> dflt | Some v \<Rightarrow> v)"

fun contains :: "string \<Rightarrow> string \<Rightarrow> bool" where
  \<comment> \<open>\<open>sub in s\<close> for two \<open>str\<close>\<close>
  "contains sub [] = (sub = [])"
| "contains sub (c # cs) = (prefix sub (c # cs) \<or> contains sub cs)"

definition py_in :: "string \<Rightarrow> json \<Rightarrow> py_error + bool" where
  \<comment> \<open>\<open>x in v\<close> for a \<open>str\<close> \<open>x\<close>: substring of a \<open>str\<close>, element of a list, key of a
      dict; \<open>TypeError\<close> for a value that is not iterable\<close>
  "py_in x v =
     (case v of
        JStr s \<Rightarrow> Inr (contains x s)
      | JList vs \<Rightarrow> Inr (JStr x \<in> set vs)
      | JDict d \<Rightarrow> Inr (x \<in> set (map fst d))
      | _ \<Rightarrow> Inl TypeError)"

definition py_isspace :: "char \<Rightarrow> bool" where
  \<comment> \<open>the code points below 256 that \<open>str.strip()\<close> removes\<close>
  "py_isspace c =
     (let n = (of_char c :: nat)
      in (9 \<le> n \<and> n \<le> 13) \<or> (28 \<le> n \<and> n \<le> 32) \<or> n = 133 \<or> n = 160)"

definition strip :: "string \<Rightarrow> string" where
  "strip s = rev (dropWhile py_isspace (rev (dropWhile py_isspace s)))"

section \<open>File system\<close>

text \<open>
  The file system is the list of its entries in the order a directory scan gives them.
  A node is a regular file or a directory; \<open>content\<close> is a file's bytes (for a
  directory, its own on-disk data, seen only through \<open>st_size\<close>), \<open>mtime\<close> its
  modification time. A system call raises \<open>OSError\<close> when the kinds of the nodes forbid
  it, and also whenever \<open>faulty\<close> says so: that stands for every cause outside the
  recorded state (permissions, an ancestor that is missing or not a directory, a full
  disk). \<open>stderr\<close> collects the diagnostic lines printed; \<open>ErrorLine p e\<close> is the line
  \<open>p\<close> followed by \<open>str(e)\<close>. Renaming follows POSIX.
\<close>

datatype kind = Regular | Directory

datatype node = Node (kind: kind) (content: string) (mtime: rat)

datatype syscall =
    SysMkdir path
  | SysStat path
  | SysOpenRead path
  | SysOpenAppend path
  | SysOpenWrite path
  | SysRename path path
  | SysScandir path
  | SysScandirDenied path

datatype msg = Line string | ErrorLine string py_error

record world =
  nodes :: "(path \<times> node) list"
  faulty :: "syscall \<Rightarrow> bool"
  stderr :: "msg list"

definition path_exists :: "world \<Rightarrow> path \<Rightarrow> bool" where
  \<comment> \<open>\<open>Path.exists()\<close>\<close>
  "path_exists w p = (map_of (nodes w) p \<noteq> None)"

definition st_size :: "node \<Rightarrow> nat" where
  "st_size n = length (content n)"

definition os_stat :: "world \<Rightarrow> path \<Rightarrow> py_error + node" where
  \<comment> \<open>\<open>Path.stat()\<close>\<close>
  "os_stat w p =
     (if faulty w (SysStat p) then Inl OSError
      else case map_of (nodes w) p of None \<Rightarrow> Inl OSError | Some n \<Rightarrow> Inr n)"

definition mkdir_p :: "world \<Rightarrow> rat \<Rightarrow> path \<Rightarrow> py_error + world" where
  \<comment> \<open>\<open>Path.mkdir(parents=True, exist_ok=True)\<close> at time \<open>t\<close>\<close>
  "mkdir_p w t p =
     (if faulty w (SysMkdir p) then Inl OSError
      else case map_of (nodes w) p of
             Some n \<Rightarrow> (if kind n = Directory then Inr w else Inl OSError)
           | None \<Rightarrow> Inr (w\<lparr>nodes := nodes w @ [(p, Node Directory [] t)]\<rparr>))"

definition append_text :: "world \<Rightarrow> rat \<Rightarrow> path \<Rightarrow> string \<Rightarrow> py_error + world" where
  \<comment> \<open>\<open>with open(p, "a") as f: f.write(s)\<close> at time \<open>t\<close>\<close>
  "append_text w t p s =
     (if faulty w (SysOpenAppend p) then Inl OSError
      else case map_of (nodes w) p of
             Some n \<Rightarrow>
               (if kind n = Directory then Inl OSError
                else Inr (w\<lparr>nodes := AList.update p (Node Regular (content n @ s) t) (nodes w)\<rparr>))
           | None \<Rightarrow> Inr (w\<lparr>nodes := AList.update p (Node Regular s t) (nodes w)\<rparr>))"

definition write_text :: "world \<Rightarrow> rat \<Rightarrow> path \<Rightarrow> string \<Rightarrow> py_error + world" where
  \<comment> \<open>\<open>Path.write_text(s)\<close> at time \<open>t\<close>: creates or overwrites\<close>
  "write_text w t p s =
     (if faulty w (SysOpenWrite p) then Inl OSError
      else case map_of (nodes w) p of
             Some n \<Rightarrow>
               (if kind n = Directory then Inl OSError
                else Inr (w\<lparr>nodes := AList.update p (Node Regular s t) (nodes w)\<rparr>))
           | None \<Rightarrow> Inr (w\<lparr>nodes := AList.update p (Node Regular s t) (nodes w)\<rparr>))"

definition read_text :: "pylib \<Rightarrow> world \<Rightarrow> path \<Rightarrow> py_error + string" where
  \<comment> \<open>\<open>Path.read_text(encoding="utf-8")\<close>\<close>
  "read_text lib w p =
     (if faulty w (SysOpenRead p) then Inl OSError
      else case map_of (nodes w) p of
             None \<Rightarrow> Inl OSError
           | Some n \<Rightarrow>
               (if kind n = Directory then Inl OSError
                else case decode lib (content n) of
                       None \<Rightarrow> Inl UnicodeDecodeError
                     | Some s \<Rightarrow> Inr s))"

definition is_below :: "path \<Rightarrow> path \<Rightarrow> bool" where
  \<comment> \<open>\<open>q\<close> lies inside the directory \<open>d\<close>, at any depth\<close>
  "is_below d q = (prefix (d @ ''/'') q \<and> length d + 1 < length q)"

definition rename_entry :: "path \<Rightarrow> path \<Rightarrow> path \<times> node \<Rightarrow> path \<times> node" where
  "rename_entry src dst e =
     (if fst e = src then (dst, snd e)
      else if is_below src (fst e) then (dst @ drop (length src) (fst e), snd e)
      else e)"

definition os_rename :: "world \<Rightarrow> path \<Rightarrow> path \<Rightarrow> py_error + world" where
  \<comment> \<open>\<open>Path.rename(dst)\<close>: a file replaces a file, a directory an empty directory\<close>
  "os_rename w src dst =
     (if faulty w (SysRename src dst) then Inl OSError
      else case map_of (nodes w) src of
             None \<Rightarrow> Inl OSError
           | Some n \<Rightarrow>
               if src = dst then Inr w
               else if is_below src dst then Inl OSError
               else (case map_of (nodes w) dst of
                       None \<Rightarrow> Inr (w\<lparr>nodes := map (rename_entry src dst) (nodes w)\<rparr>)
                     | Some d \<Rightarrow>
                         if kind d \<noteq> kind n then Inl OSError
                         else if kind d = Directory \<and> (\<exists>q \<in> set (map fst (nodes w)). is_below dst q)
                         then Inl OSError
                         else Inr (w\<lparr>nodes := map (rename_entry src dst)
                                                 (AList.delete dst (nodes w))\<rparr>)))"

section \<open>Integers as text, diagnostics\<close>

text \<open>
  \<open>int(s)\<close> for a \<open>str\<close>: white space around the literal is dropped, then an optional
  sign and decimal digits, any two of which one underscore may separate; \<open>None\<close> is
  \<open>ValueError\<close>. Exact for code points below 256, where the decimal digits are
  \<open>0\<close> to \<open>9\<close>. Integers are unbounded and the interpreter's limit on the number of
  digits of a conversion (4300 by default since Python 3.11) is not modelled.
\<close>

definition digit_val :: "char \<Rightarrow> nat option" where
  "digit_val c =
     (let n = (of_char c :: nat) in if 48 \<le> n \<and> n \<le> 57 then Some (n - 48) else None)"

fun int_digits :: "bool \<Rightarrow> int \<Rightarrow> string \<Rightarrow> int option" where
  \<comment> \<open>the flag says that the character before was a digit\<close>
  "int_digits after_digit a [] = (if after_digit then Some a else None)"
| "int_digits after_digit a (c # cs) =
     (if c = CHR ''_'' then (if after_digit then int_digits False a cs else None)
      else case digit_val c of
             None \<Rightarrow> None
           | Some d \<Rightarrow> int_digits True (10 * a + int d) cs)"

definition py_int :: "string \<Rightarrow> int option" where
  "py_int s =
     (case strip s of
        [] \<Rightarrow> None
      | c # cs \<Rightarrow>
          if c = CHR ''-'' then map_option uminus (int_digits False 0 cs)
          else if c = CHR ''+'' then int_digits False 0 cs
          else int_digits False 0 (c # cs))"

definition digit_char :: "nat \<Rightarrow> char" where
  "digit_char d = ''0123456789'' ! d"

fun str_nat :: "nat \<Rightarrow> string" where
  "str_nat n =
     (if n < 10 then [digit_char n] else str_nat (n div 10) @ [digit_char (n mod 10)])"

declare str_nat.simps [simp del]

definition str_int :: "int \<Rightarrow> string" where
  \<comment> \<open>\<open>str(i)\<close> for an \<open>int\<close>\<close>
  "str_int i = (if i < 0 then ''-'' @ str_nat (nat (- i)) else str_nat (nat i))"

definition or_else :: "string option \<Rightarrow> string \<Rightarrow> string" where
  \<comment> \<open>\<open>os.environ.get(key) or d\<close>: \<open>None\<close> and the empty \<open>str\<close> are false\<close>
  "or_else v d = (case v of None \<Rightarrow> d | Some s \<Rightarrow> if s = [] then d else s)"

definition print_stderr :: "world \<Rightarrow> msg \<Rightarrow> world" where
  \<comment> \<open>\<open>print(..., file=sys.stderr)\<close>\<close>
  "print_stderr w m = w\<lparr>stderr := stderr w @ [m]\<rparr>"

section \<open>Observation hook (skills/continuous-learning-v2/hooks/observe.py)\<close>

definition get_config_dir :: "proc \<Rightarrow> path" where
  \<comment> \<open>\<open>Path.home() / ".claude" / "homunculus"\<close>\<close>
  "get_config_dir pr = path_join (path_join (home pr) ''.claude'') ''homunculus''"

definition get_observations_file :: "proc \<Rightarrow> path" where
  "get_observations_file pr = path_join (get_config_dir pr) ''observations.jsonl''"

text \<open>
  \<open>archive_if_needed(observations_file, max_size_mb=10)\<close>. \<open>size_mb\<close> is the true
  quotient: dividing by \<open>2^20\<close> is exact in binary floating point for every size below
  \<open>2^53\<close> bytes. An \<open>OSError\<close> of \<open>stat\<close>, \<open>mkdir\<close> or \<open>rename\<close> ends the function
  silently (\<open>except OSError: pass\<close>); what was done before it stays done.
\<close>

definition archive_if_needed :: "proc \<Rightarrow> world \<Rightarrow> path \<Rightarrow> int \<Rightarrow> world" where
  "archive_if_needed pr w observations_file max_size_mb =
     (if \<not> path_exists w observations_file then w
      else case os_stat w observations_file of
             Inl e \<Rightarrow> w
           | Inr st \<Rightarrow>
               (let size_mb = (of_nat (st_size st) :: rat) / (1024 * 1024)
                in if size_mb \<ge> of_int max_size_mb then
                     (let archive_dir = path_join (get_config_dir pr) ''observations.archive''
                      in case mkdir_p w (now pr) archive_dir of
                           Inl e \<Rightarrow> w
                         | Inr w1 \<Rightarrow>
                             (let timestamp = strftime pr ''%Y%m%d-%H%M%S'';
                                  archive_path =
                                    path_join archive_dir (''observations-'' @ timestamp @ ''.jsonl'')
                              in case os_rename w1 observations_file archive_path of
                                   Inl e \<Rightarrow> w1
                                 | Inr w2 \<Rightarrow> w2))
                   else w))"

text \<open>
  \<open>parse_hook_input\<close> returns a dict with \<open>parsed: True\<close> and the fields, or
  \<open>{"parsed": False, "error": str(e)}\<close> on any exception; the caller never reads the
  error text.
\<close>

datatype parsed =
    ParseFailed
  | Parsed (p_event: string) (p_tool: json) (p_input: "string option")
      (p_output: "string option") (p_session: json)

definition truncated_str :: "pylib \<Rightarrow> json \<Rightarrow> string" where
  \<comment> \<open>\<open>json.dumps(v)[:5000] if isinstance(v, dict) else str(v)[:5000]\<close>\<close>
  "truncated_str lib v =
     (case v of JDict d \<Rightarrow> take 5000 (dumps lib v) | _ \<Rightarrow> take 5000 (py_str lib v))"

definition parse_hook_input :: "pylib \<Rightarrow> string \<Rightarrow> parsed" where
  "parse_hook_input lib input_json =
     (case loads lib input_json of
        None \<Rightarrow> ParseFailed
      | Some (JDict data) \<Rightarrow>
          (let hook_type = dict_get data ''hook_type'' (JStr ''unknown'');
               tool_name = dict_get data ''tool_name'' (dict_get data ''tool'' (JStr ''unknown''));
               tool_input = dict_get data ''tool_input'' (dict_get data ''input'' (JDict []));
               tool_output = dict_get data ''tool_output'' (dict_get data ''output'' (JStr ''''));
               session_id = dict_get data ''session_id'' (JStr ''unknown'');
               tool_input_str = truncated_str lib tool_input;
               tool_output_str = truncated_str lib tool_output
           in case py_in ''Pre'' hook_type of
                Inl e \<Rightarrow> ParseFailed
              | Inr is_pre \<Rightarrow>
                  (let event = (if is_pre then ''tool_start'' else ''tool_complete'')
                   in Parsed event tool_name
                        (if event = ''tool_start'' then Some tool_input_str else None)
                        (if event = ''tool_complete'' then Some tool_output_str else None)
                        session_id))
      | Some _ \<Rightarrow> ParseFailed)"

definition write_observation ::
  "pylib \<Rightarrow> proc \<Rightarrow> world \<Rightarrow> (string \<times> json) list \<Rightarrow> path \<Rightarrow> (py_error \<times> world) + world" where
  "write_observation lib pr w observation observations_file =
     (case mkdir_p w (now pr) (path_parent observations_file) of
        Inl e \<Rightarrow> Inl (e, w)
      | Inr w1 \<Rightarrow>
          (case append_text w1 (now pr) observations_file (dumps lib (JDict observation) @ [CHR 0x0A]) of
             Inl e \<Rightarrow> Inl (e, w1)
           | Inr w2 \<Rightarrow> Inr w2))"

definition truthy :: "string option \<Rightarrow> bool" where
  \<comment> \<open>the truth value of \<open>parsed.get(key)\<close>: \<open>None\<close> and the empty \<open>str\<close> are false\<close>
  "truthy v = (case v of None \<Rightarrow> False | Some s \<Rightarrow> s \<noteq> [])"

definition optional_field :: "string \<Rightarrow> string option \<Rightarrow> (string \<times> json) list" where
  \<comment> \<open>\<open>if parsed.get(key): observation[key] = parsed[key]\<close>\<close>
  "optional_field key v = (case v of None \<Rightarrow> [] | Some s \<Rightarrow> if truthy v then [(key, JStr s)] else [])"

definition build_observation :: "string \<Rightarrow> parsed \<Rightarrow> (string \<times> json) list" where
  \<comment> \<open>lines 132 to 142 of \<open>main\<close>, for a parsed event\<close>
  "build_observation timestamp p =
     [(''timestamp'', JStr timestamp), (''event'', JStr (p_event p)),
      (''tool'', p_tool p), (''session'', p_session p)]
     @ optional_field ''input'' (p_input p)
     @ optional_field ''output'' (p_output p)"

text \<open>
  \<open>main\<close>. \<open>sys.exit(0)\<close> ends the process normally (\<open>Inr\<close>); an exception that
  nothing catches ends it with a traceback (\<open>Inl\<close>, with the world as it then is).
\<close>

definition observe_main :: "pylib \<Rightarrow> proc \<Rightarrow> world \<Rightarrow> (py_error \<times> world) + world" where
  "observe_main lib pr w =
     (let config_dir = get_config_dir pr;
          observations_file = get_observations_file pr
      in case mkdir_p w (now pr) config_dir of
           Inl e \<Rightarrow> Inl (e, w)
         | Inr w1 \<Rightarrow>
             if path_exists w1 (path_join config_dir ''disabled'') then Inr w1
             else (case stdin pr of
                     None \<Rightarrow> Inr w1
                   | Some input_json \<Rightarrow>
                       if strip input_json = [] then Inr w1
                       else (let parsed = parse_hook_input lib input_json;
                                 timestamp = utc_strftime pr ''%Y-%m-%dT%H:%M:%SZ''
                             in case parsed of
                                  ParseFailed \<Rightarrow>
                                    write_observation lib pr w1
                                      [(''timestamp'', JStr timestamp),
                                       (''event'', JStr ''parse_error''),
                                       (''raw'', JStr (take 1000 input_json))]
                                      observations_file
                                | Parsed ev tool_name inp outp sess \<Rightarrow>
                                    (let w2 = archive_if_needed pr w1 observations_file 10
                                     in write_observation lib pr w2
                                          (build_observation timestamp parsed)
                                          observations_file))))"

text \<open>
  Names for what the statements below speak of: the archive directory and the archive
  path that \<open>archive_if_needed\<close> computes, the outcome of an invocation as its last
  world, and the absence of every \<open>OSError\<close> that could stop a rotation of the active
  log (no fault reported by the system for \<open>stat\<close>, \<open>mkdir\<close> and \<open>rename\<close>, the
  archive directory's path not taken by a regular file, the archive path not taken by a
  directory).
\<close>

definition observations_archive_dir :: "proc \<Rightarrow> path" where
  "observations_archive_dir pr = path_join (get_config_dir pr) ''observations.archive''"

definition observations_archive_path :: "proc \<Rightarrow> path" where
  "observations_archive_path pr =
     path_join (observations_archive_dir pr)
       (''observations-'' @ strftime pr ''%Y%m%d-%H%M%S'' @ ''.jsonl'')"

definition final_world :: "(py_error \<times> world) + world \<Rightarrow> world" where
  "final_world r = (case r of Inl (e, w) \<Rightarrow> w | Inr w \<Rightarrow> w)"

definition rotation_unhindered :: "proc \<Rightarrow> world \<Rightarrow> bool" where
  "rotation_unhindered pr w =
     (\<not> faulty w (SysStat (get_observations_file pr))
      \<and> \<not> faulty w (SysMkdir (observations_archive_dir pr))
      \<and> \<not> faulty w (SysRename (get_observations_file pr) (observations_archive_path pr))
      \<and> (case map_of (nodes w) (observations_archive_dir pr) of
            None \<Rightarrow> True | Some d \<Rightarrow> kind d = Directory)
      \<and> (case map_of (nodes w) (observations_archive_path pr) of
            None \<Rightarrow> True | Some d \<Rightarrow> kind d = Regular))"

section \<open>Compaction suggester (scripts/hooks/suggest_compact.py)\<close>

definition counter_file :: "proc \<Rightarrow> path" where
  \<comment> \<open>\<open>Path(tempfile.gettempdir()) / f"claude-tool-count-{session_id}"\<close>\<close>
  "counter_file pr =
     (let session_id =
            or_else (environ_get (environ pr) ''CLAUDE_SESSION_ID'')
              (or_else (environ_get (environ pr) ''PPID'') ''default'')
      in path_join (tmpdir pr) (''claude-tool-count-'' @ session_id))"

text \<open>
  The count of this call: one more than the integer the counter file holds, and 1 when
  the file is absent or when reading or parsing it raises \<open>ValueError\<close> or
  \<open>OSError\<close>.
\<close>

definition tool_count :: "pylib \<Rightarrow> proc \<Rightarrow> world \<Rightarrow> py_error + int" where
  "tool_count lib pr w =
     (if path_exists w (counter_file pr) then
        (case (case read_text lib w (counter_file pr) of
                 Inl e \<Rightarrow> Inl e
               | Inr s \<Rightarrow> (case py_int (strip s) of None \<Rightarrow> Inl ValueError | Some n \<Rightarrow> Inr (n + 1))) of
           Inl e \<Rightarrow> if is_ValueError e \<or> e = OSError then Inr 1 else Inl e
         | Inr count \<Rightarrow> Inr count)
      else Inr 1)"

definition threshold_line :: "int \<Rightarrow> msg" where
  "threshold_line threshold =
     Line (''[StrategicCompact] '' @ str_int threshold
           @ '' tool calls reached - consider /compact if transitioning phases'')"

definition checkpoint_line :: "int \<Rightarrow> msg" where
  "checkpoint_line count =
     Line (''[StrategicCompact] '' @ str_int count
           @ '' tool calls - good checkpoint for /compact if context is stale'')"

text \<open>
  \<open>main\<close>. The threshold is converted before anything is read or written, outside the
  \<open>try\<close> that guards the counter.
\<close>

definition suggest_compact_main :: "pylib \<Rightarrow> proc \<Rightarrow> world \<Rightarrow> (py_error \<times> world) + world" where
  "suggest_compact_main lib pr w =
     (case py_int (environ_get_default (environ pr) ''COMPACT_THRESHOLD'' ''50'') of
        None \<Rightarrow> Inl (ValueError, w)
      | Some threshold \<Rightarrow>
          (case tool_count lib pr w of
             Inl e \<Rightarrow> Inl (e, w)
           | Inr count \<Rightarrow>
               (case write_text w (now pr) (counter_file pr) (str_int count) of
                  Inl e \<Rightarrow> Inl (e, w)
                | Inr w1 \<Rightarrow>
                    (let w2 = (if count = threshold
                               then print_stderr w1 (threshold_line threshold) else w1);
                         w3 = (if count > threshold \<and> count mod 25 = 0
                               then print_stderr w2 (checkpoint_line count) else w2)
                     in Inr w3))))"

definition suggest_compact_script :: "pylib \<Rightarrow> proc \<Rightarrow> world \<Rightarrow> world" where
  \<comment> \<open>the script: \<open>try: main()\<close>, \<open>except Exception as e:\<close> print the error\<close>
  "suggest_compact_script lib pr w =
     (case suggest_compact_main lib pr w of
        Inl (e, w1) \<Rightarrow> print_stderr w1 (ErrorLine ''[StrategicCompact] Error: '' e)
      | Inr w1 \<Rightarrow> w1)"

section \<open>Session evaluator (skills/continuous-learning/evaluate_session.py)\<close>

text \<open>
  \<open>s.count(sub)\<close>: the occurrences of \<open>sub\<close> met from left to right, none overlapping
  another.
\<close>

function count_sub :: "string \<Rightarrow> string \<Rightarrow> nat" where
  "count_sub sub s =
     (if sub = [] then length s + 1
      else if length s < length sub then 0
      else if prefix sub s then 1 + count_sub sub (drop (length sub) s)
      else count_sub sub (tl s))"
  by pat_completeness auto

termination
proof (relation "measure (\<lambda>(sub, s). length s)")
  show "wf (measure (\<lambda>(sub, s). length s))"
    by simp
next
  fix sub s :: string
  assume a: "sub \<noteq> []" "\<not> length s < length sub"
  from a(1) have "0 < length sub"
    by simp
  with a(2) have "length s - length sub < length s"
    by arith
  then show "((sub, drop (length sub) s), (sub, s)) \<in> measure (\<lambda>(sub, s). length s)"
    by simp
next
  fix sub s :: string
  assume a: "sub \<noteq> []" "\<not> length s < length sub"
  from a(1) have "0 < length sub"
    by simp
  with a(2) have "0 < length s"
    by arith
  then have "length (tl s) < length s"
    by (cases s) simp_all
  then show "((sub, tl s), (sub, s)) \<in> measure (\<lambda>(sub, s). length s)"
    by simp
qed

declare count_sub.simps [simp del]

definition user_marker :: string where
  \<open>user_marker = ''"type":"user"''\<close>

definition user_marker_spaced :: string where
  \<open>user_marker_spaced = ''"type": "user"''\<close>

definition str_replace_char :: "char \<Rightarrow> string \<Rightarrow> string \<Rightarrow> string" where
  \<comment> \<open>\<open>s.replace(c, r)\<close> for a single character \<open>c\<close>\<close>
  "str_replace_char c r s = concat (map (\<lambda>x. if x = c then r else [x]) s)"

definition json_truthy :: "json \<Rightarrow> bool" where
  \<comment> \<open>the truth value of a decoded JSON value\<close>
  "json_truthy v =
     (case v of
        JNull \<Rightarrow> False
      | JBool b \<Rightarrow> b
      | JInt i \<Rightarrow> i \<noteq> 0
      | JFloat f \<Rightarrow> f \<noteq> Finite 0
      | JStr s \<Rightarrow> s \<noteq> []
      | JList vs \<Rightarrow> vs \<noteq> []
      | JDict d \<Rightarrow> d \<noteq> [])"

definition config_get :: "json \<Rightarrow> string \<Rightarrow> json \<Rightarrow> py_error + json" where
  \<comment> \<open>\<open>config.get(key, default)\<close>: only a dict has the method\<close>
  "config_get config key dflt =
     (case config of JDict d \<Rightarrow> Inr (dict_get d key dflt) | _ \<Rightarrow> Inl AttributeError)"

definition int_lt :: "int \<Rightarrow> json \<Rightarrow> py_error + bool" where
  \<comment> \<open>\<open>i < v\<close> for an \<open>int\<close> \<open>i\<close>: defined against numbers, \<open>TypeError\<close> otherwise\<close>
  "int_lt i v =
     (case v of
        JInt m \<Rightarrow> Inr (i < m)
      | JBool b \<Rightarrow> Inr (i < (if b then 1 else 0))
      | JFloat f \<Rightarrow>
          (case f of
             Finite r \<Rightarrow> Inr (of_int i < r)
           | PosInf \<Rightarrow> Inr True
           | NegInf \<Rightarrow> Inr False
           | NaN \<Rightarrow> Inr False)
      | _ \<Rightarrow> Inl TypeError)"

definition get_learned_skills_path :: "proc \<Rightarrow> path" where
  "get_learned_skills_path pr =
     path_join (path_join (path_join (home pr) ''.claude'') ''skills'') ''learned''"

text \<open>
  \<open>load_config\<close>; \<open>script_dir\<close> is the directory of the script
  (\<open>Path(__file__).parent\<close>). The handler catches \<open>JSONDecodeError\<close> and \<open>OSError\<close>
  only.
\<close>

definition load_config :: "pylib \<Rightarrow> world \<Rightarrow> path \<Rightarrow> py_error + json" where
  "load_config lib w script_dir =
     (let config_file = path_join script_dir ''config.json''
      in if path_exists w config_file then
           (case (case read_text lib w config_file of
                    Inl e \<Rightarrow> Inl e
                  | Inr s \<Rightarrow> (case loads lib s of None \<Rightarrow> Inl JSONDecodeError | Some v \<Rightarrow> Inr v)) of
              Inl e \<Rightarrow> if e = JSONDecodeError \<or> e = OSError then Inr (JDict []) else Inl e
            | Inr v \<Rightarrow> Inr v)
         else Inr (JDict []))"

definition count_messages :: "pylib \<Rightarrow> world \<Rightarrow> path \<Rightarrow> py_error + int" where
  "count_messages lib w transcript_path =
     (if \<not> path_exists w transcript_path then Inr 0
      else case read_text lib w transcript_path of
             Inl e \<Rightarrow> if e = OSError \<or> e = UnicodeDecodeError then Inr 0 else Inl e
           | Inr text \<Rightarrow>
               Inr (int (count_sub user_marker text)
                    + int (count_sub user_marker_spaced text)))"

definition resolve_learned_skills_path :: "pylib \<Rightarrow> proc \<Rightarrow> json \<Rightarrow> py_error + path" where
  \<comment> \<open>lines 59 to 63 of \<open>main\<close>\<close>
  "resolve_learned_skills_path lib pr config =
     (case config_get config ''learned_skills_path'' (JStr '''') of
        Inl e \<Rightarrow> Inl e
      | Inr learned_path_str \<Rightarrow>
          if json_truthy learned_path_str then
            (case learned_path_str of
               JStr s \<Rightarrow> Inr (path_of lib (str_replace_char CHR ''~'' (home pr) s))
             | _ \<Rightarrow> Inl AttributeError)
          else Inr (get_learned_skills_path pr))"

definition too_short_line :: "int \<Rightarrow> msg" where
  "too_short_line message_count =
     Line (''[ContinuousLearning] Session too short ('' @ str_int message_count
           @ '' messages), skipping'')"

definition evaluate_line :: "int \<Rightarrow> msg" where
  "evaluate_line message_count =
     Line (''[ContinuousLearning] Session has '' @ str_int message_count
           @ '' messages - evaluate for extractable patterns'')"

definition save_line :: "path \<Rightarrow> msg" where
  "save_line learned_skills_path =
     Line (''[ContinuousLearning] Save learned skills to: '' @ learned_skills_path)"

definition evaluate_session_main ::
  "pylib \<Rightarrow> proc \<Rightarrow> path \<Rightarrow> world \<Rightarrow> (py_error \<times> world) + world" where
  "evaluate_session_main lib pr script_dir w =
     (case load_config lib w script_dir of
        Inl e \<Rightarrow> Inl (e, w)
      | Inr config \<Rightarrow>
     (case config_get config ''min_session_length'' (JInt 10) of
        Inl e \<Rightarrow> Inl (e, w)
      | Inr min_session_length \<Rightarrow>
     (case resolve_learned_skills_path lib pr config of
        Inl e \<Rightarrow> Inl (e, w)
      | Inr learned_skills_path \<Rightarrow>
     (case mkdir_p w (now pr) learned_skills_path of
        Inl e \<Rightarrow> Inl (e, w)
      | Inr w1 \<Rightarrow>
          (let transcript_path_str = environ_get_default (environ pr) ''CLAUDE_TRANSCRIPT_PATH'' ''''
           in if transcript_path_str = [] then Inr w1
              else (let transcript_path = path_of lib transcript_path_str
                    in if \<not> path_exists w1 transcript_path then Inr w1
                       else (case count_messages lib w1 transcript_path of
                               Inl e \<Rightarrow> Inl (e, w1)
                             | Inr message_count \<Rightarrow>
                            (case int_lt message_count min_session_length of
                               Inl e \<Rightarrow> Inl (e, w1)
                             | Inr short \<Rightarrow>
                                 if short
                                 then Inr (print_stderr w1 (too_short_line message_count))
                                 else Inr (print_stderr
                                             (print_stderr w1 (evaluate_line message_count))
                                             (save_line learned_skills_path))))))))))"

section \<open>File index (scripts/lib/utils.py)\<close>

text \<open>
  \<open>find_files\<close> only reads. What its calls see of a directory is a tree: a regular file
  with the \<open>st_mtime\<close> that \<open>stat()\<close> gives, a directory with its entries in the order
  \<open>iterdir()\<close> yields them, a directory whose listing raises \<open>PermissionError\<close> or
  another \<open>OSError\<close>, an entry that is neither a file nor a directory, and an entry on
  which \<open>is_file()\<close> itself raises \<open>PermissionError\<close> or another \<open>OSError\<close>
  (\<open>Path.is_file\<close> and \<open>Path.exists\<close> ignore only a missing path). Timestamps and
  ages are exact rationals.
\<close>

datatype entry =
    File string rat
  | Dir string "entry list"
  | DirDenied string
  | DirFailed string
  | Other string
  | Denied string
  | Failed string

datatype found = Found (f_path: path) (f_mtime: rat)

definition glob_to_regex :: "string \<Rightarrow> string" where
  \<comment> \<open>\<open>"^" + pattern.replace(".", r"\.").replace("*", ".*").replace("?", ".") + "$"\<close>\<close>
  "glob_to_regex pattern =
     ''^'' @ str_replace_char CHR ''?'' ''.''
              (str_replace_char CHR ''*'' ''.*''
                 (str_replace_char CHR ''.'' [CHR 0x5C, CHR ''.''] pattern)) @ ''$''"

definition too_old :: "rat \<Rightarrow> rat option \<Rightarrow> rat \<Rightarrow> bool" where
  \<comment> \<open>\<open>max_age_days is not None\<close> and \<open>age_days > max_age_days\<close>, at the instant \<open>t\<close>\<close>
  "too_old t max_age_days st_mtime =
     (case max_age_days of
        None \<Rightarrow> False
      | Some m \<Rightarrow> (let age_days = (t - st_mtime) / (60 * 60 * 24) in age_days > m))"

text \<open>
  The loop of \<open>search_dir\<close> over the entries of \<open>current_dir\<close>, with the results so far.
  It returns them with the exception that ended it, if any. The call for a subdirectory
  has its own handler: a \<open>PermissionError\<close> raised inside it ends that call only.
\<close>

fun search_entries ::
  "(string \<Rightarrow> bool) \<Rightarrow> rat \<Rightarrow> rat option \<Rightarrow> bool \<Rightarrow> path \<Rightarrow> entry list \<Rightarrow> found list
     \<Rightarrow> py_error option \<times> found list" where
  "search_entries regex t max_age_days recursive current_dir [] results = (None, results)"
| "search_entries regex t max_age_days recursive current_dir (File name st_mtime # es) results =
     (if regex name then
        (if too_old t max_age_days st_mtime
         then search_entries regex t max_age_days recursive current_dir es results
         else search_entries regex t max_age_days recursive current_dir es
                (results @ [Found (path_join current_dir name) st_mtime]))
      else search_entries regex t max_age_days recursive current_dir es results)"
| "search_entries regex t max_age_days recursive current_dir (Dir name sub # es) results =
     (if recursive then
        (case search_entries regex t max_age_days recursive (path_join current_dir name) sub results of
           (None, r) \<Rightarrow> search_entries regex t max_age_days recursive current_dir es r
         | (Some e, r) \<Rightarrow>
             if e = PermissionError
             then search_entries regex t max_age_days recursive current_dir es r
             else (Some e, r))
      else search_entries regex t max_age_days recursive current_dir es results)"
| "search_entries regex t max_age_days recursive current_dir (DirDenied name # es) results =
     search_entries regex t max_age_days recursive current_dir es results"
| "search_entries regex t max_age_days recursive current_dir (DirFailed name # es) results =
     (if recursive then (Some OSError, results)
      else search_entries regex t max_age_days recursive current_dir es results)"
| "search_entries regex t max_age_days recursive current_dir (Other name # es) results =
     search_entries regex t max_age_days recursive current_dir es results"
| "search_entries regex t max_age_days recursive current_dir (Denied name # es) results =
     (Some PermissionError, results)"
| "search_entries regex t max_age_days recursive current_dir (Failed name # es) results =
     (Some OSError, results)"

definition search_dir ::
  "(string \<Rightarrow> bool) \<Rightarrow> rat \<Rightarrow> rat option \<Rightarrow> bool \<Rightarrow> path \<Rightarrow> entry \<Rightarrow> found list
     \<Rightarrow> py_error option \<times> found list" where
  \<comment> \<open>\<open>search_dir(directory)\<close>, for what the calls see at \<open>directory\<close> itself\<close>
  "search_dir regex t max_age_days recursive current_dir seen results =
     (case seen of
        Dir name es \<Rightarrow>
          (case search_entries regex t max_age_days recursive current_dir es results of
             (None, r) \<Rightarrow> (None, r)
           | (Some e, r) \<Rightarrow> if e = PermissionError then (None, r) else (Some e, r))
      | DirDenied name \<Rightarrow> (None, results)
      | _ \<Rightarrow> (Some OSError, results))"

text \<open>
  \<open>find_files(directory, pattern, max_age_days, recursive)\<close>; \<open>seen\<close> is what the calls
  see at \<open>directory\<close>, \<open>None\<close> when nothing is there. The sort is stable, newest first.
\<close>

definition find_files ::
  "pylib \<Rightarrow> proc \<Rightarrow> entry option \<Rightarrow> path \<Rightarrow> string \<Rightarrow> rat option \<Rightarrow> bool
     \<Rightarrow> py_error + found list" where
  "find_files lib pr seen directory pattern max_age_days recursive =
     (case seen of
        None \<Rightarrow> Inr []
      | Some (Denied name) \<Rightarrow> Inl PermissionError
      | Some (Failed name) \<Rightarrow> Inl OSError
      | Some d \<Rightarrow>
          (case re_compile lib (glob_to_regex pattern) of
             None \<Rightarrow> Inl ReError
           | Some regex \<Rightarrow>
               (case search_dir regex (now pr) max_age_days recursive directory d [] of
                  (Some e, results) \<Rightarrow> Inl e
                | (None, results) \<Rightarrow> Inr (sort_key (\<lambda>x. - f_mtime x) results))))"

text \<open>
  A scan that no exception cuts short: no entry on which \<open>is_file()\<close> raises and, with
  \<open>recursive\<close>, none all the way down and no listing that raises anything but
  \<open>PermissionError\<close>.
\<close>

fun clean :: "bool \<Rightarrow> entry \<Rightarrow> bool" where
  "clean recursive (File name st_mtime) = True"
| "clean recursive (Dir name sub) = (recursive \<longrightarrow> list_all (clean recursive) sub)"
| "clean recursive (DirDenied name) = True"
| "clean recursive (DirFailed name) = (\<not> recursive)"
| "clean recursive (Other name) = True"
| "clean recursive (Denied name) = False"
| "clean recursive (Failed name) = False"

text \<open>
  \<open>scripts/hooks/session_start.py\<close>, \<open>find_recent_files(directory, pattern,
  max_age_days=7)\<close>, keeps a file by the test \<open>st_mtime >= cutoff\<close>. \<open>Path.glob\<close> yields
  the entries whose name matches, and nothing for a directory that may not be listed;
  the files come back newest first.
\<close>

fun recent_entries ::
  "(string \<Rightarrow> bool) \<Rightarrow> rat \<Rightarrow> path \<Rightarrow> entry list \<Rightarrow> found list \<Rightarrow> py_error + found list" where
  "recent_entries matches cutoff directory [] files = Inr files"
| "recent_entries matches cutoff directory (File name st_mtime # es) files =
     (if matches name \<and> st_mtime \<ge> cutoff
      then recent_entries matches cutoff directory es (files @ [Found (path_join directory name) st_mtime])
      else recent_entries matches cutoff directory es files)"
| "recent_entries matches cutoff directory (Denied name # es) files =
     (if matches name then Inl PermissionError
      else recent_entries matches cutoff directory es files)"
| "recent_entries matches cutoff directory (Failed name # es) files =
     (if matches name then Inl OSError
      else recent_entries matches cutoff directory es files)"
| "recent_entries matches cutoff directory (e # es) files =
     recent_entries matches cutoff directory es files"

definition find_recent_files ::
  "pylib \<Rightarrow> proc \<Rightarrow> entry option \<Rightarrow> path \<Rightarrow> string \<Rightarrow> int \<Rightarrow> py_error + path list" where
  "find_recent_files lib pr seen directory pattern max_age_days =
     (case seen of
        None \<Rightarrow> Inr []
      | Some (Denied name) \<Rightarrow> Inl PermissionError
      | Some (Failed name) \<Rightarrow> Inl OSError
      | Some (DirFailed name) \<Rightarrow> Inl OSError
      | Some (Dir name es) \<Rightarrow>
          (let cutoff = now pr - of_int (max_age_days * 24 * 60 * 60)
           in case recent_entries (fnmatch lib pattern) cutoff directory es [] of
                Inl e \<Rightarrow> Inl e
              | Inr files \<Rightarrow> Inr (map f_path (sort_key (\<lambda>x. - f_mtime x) files)))
      | Some other \<Rightarrow> Inr [])"

section \<open>Short session identifier\<close>

text \<open>
  \<open>scripts/lib/utils.py\<close>, \<open>get_session_id_short(fallback="default")\<close>:
  \<^verbatim>\<open>
    session_id = os.environ.get("CLAUDE_SESSION_ID", "")
    if not session_id:
        return fallback
    return session_id[-8:]
  \<close>
\<close>

definition get_session_id_short :: "environ \<Rightarrow> string \<Rightarrow> string" where
  "get_session_id_short env fallback =
     (let session_id = environ_get_default env ''CLAUDE_SESSION_ID'' ''''
      in if session_id = [] then fallback else slice_last 8 session_id)"

text \<open>
  \<open>scripts/hooks/session_end.py\<close> has its own copy, with the branches the other way round
  and the fallback fixed:
  \<^verbatim>\<open>
    session_id = os.environ.get("CLAUDE_SESSION_ID", "")
    if session_id:
        return session_id[-8:]
    return "default"
  \<close>
\<close>

definition session_end_get_session_id_short :: "environ \<Rightarrow> string" where
  "session_end_get_session_id_short env =
     (let session_id = environ_get_default env ''CLAUDE_SESSION_ID'' ''''
      in if session_id \<noteq> [] then slice_last 8 session_id else ''default'')"

section \<open>Session hooks (scripts/hooks/session_end.py, scripts/hooks/pre_compact.py)\<close>

definition get_sessions_dir :: "proc \<Rightarrow> path" where
  \<comment> \<open>\<open>Path.home() / ".claude" / "sessions"\<close>\<close>
  "get_sessions_dir pr = path_join (path_join (home pr) ''.claude'') ''sessions''"

definition session_file :: "proc \<Rightarrow> path" where
  \<comment> \<open>\<open>sessions_dir / f"{date_str}-{session_id}-session.tmp"\<close>\<close>
  "session_file pr =
     path_join (get_sessions_dir pr)
       (strftime pr ''%Y-%m-%d'' @ ''-'' @ session_end_get_session_id_short (environ pr)
        @ ''-session.tmp'')"

definition metadata_file :: "proc \<Rightarrow> path" where
  \<comment> \<open>\<open>sessions_dir / f"{date_str}-{session_id}-metadata.json"\<close>\<close>
  "metadata_file pr =
     path_join (get_sessions_dir pr)
       (strftime pr ''%Y-%m-%d'' @ ''-'' @ session_end_get_session_id_short (environ pr)
        @ ''-metadata.json'')"

definition end_marker :: "proc \<Rightarrow> string" where
  "end_marker pr =
     [CHR 0x0A] @ ''---'' @ [CHR 0x0A] @ ''**[Session ended at '' @ strftime pr ''%H:%M''
     @ '']**'' @ [CHR 0x0A]"

definition session_metadata :: "proc \<Rightarrow> json" where
  "session_metadata pr =
     JDict [(''session_id'', JStr (session_end_get_session_id_short (environ pr))),
            (''ended_at'', JStr (isoformat pr)),
            (''cwd'', JStr (cwd pr))]"

definition session_end_main :: "pylib \<Rightarrow> proc \<Rightarrow> world \<Rightarrow> (py_error \<times> world) + world" where
  "session_end_main lib pr w =
     (case mkdir_p w (now pr) (get_sessions_dir pr) of
        Inl e \<Rightarrow> Inl (e, w)
      | Inr w1 \<Rightarrow>
          (case (if path_exists w1 (session_file pr)
                 then append_text w1 (now pr) (session_file pr) (end_marker pr)
                 else Inr w1) of
             Inl e \<Rightarrow> Inl (e, w1)
           | Inr w2 \<Rightarrow>
               (case write_text w2 (now pr) (metadata_file pr)
                       (dumps_indent lib (session_metadata pr)) of
                  Inl e \<Rightarrow> Inl (e, w2)
                | Inr w3 \<Rightarrow>
                    Inr (print_stderr w3
                           (Line (''[SessionEnd] Session state saved to '' @ get_sessions_dir pr))))))"

definition session_end_script :: "pylib \<Rightarrow> proc \<Rightarrow> world \<Rightarrow> world" where
  \<comment> \<open>the script: \<open>try: main()\<close>, \<open>except Exception as e:\<close> print the error\<close>
  "session_end_script lib pr w =
     (case session_end_main lib pr w of
        Inl (e, w1) \<Rightarrow> print_stderr w1 (ErrorLine ''[SessionEnd] Error: '' e)
      | Inr w1 \<Rightarrow> w1)"

text \<open>
  The absence of every \<open>OSError\<close> in \<open>session_end.py\<close>: no fault reported by the
  system for its three calls, and none of its three paths taken by a node of the wrong
  kind.
\<close>

definition session_end_unhindered :: "proc \<Rightarrow> world \<Rightarrow> bool" where
  "session_end_unhindered pr w =
     (\<not> faulty w (SysMkdir (get_sessions_dir pr))
      \<and> \<not> faulty w (SysOpenAppend (session_file pr))
      \<and> \<not> faulty w (SysOpenWrite (metadata_file pr))
      \<and> (case map_of (nodes w) (get_sessions_dir pr) of
            None \<Rightarrow> True | Some d \<Rightarrow> kind d = Directory)
      \<and> (case map_of (nodes w) (session_file pr) of
            None \<Rightarrow> True | Some d \<Rightarrow> kind d = Regular)
      \<and> (case map_of (nodes w) (metadata_file pr) of
            None \<Rightarrow> True | Some d \<Rightarrow> kind d = Regular))"

text \<open>
  \<open>pre_compact.py\<close>. \<open>sessions_dir.glob(pattern)\<close> yields the entries of the directory
  whose name matches, in the order of the scan, and nothing when the directory may not be
  listed; \<open>sorted\<close> calls \<open>stat()\<close> on each and is stable.
\<close>

definition compaction_log :: "proc \<Rightarrow> path" where
  "compaction_log pr = path_join (get_sessions_dir pr) ''compaction-log.txt''"

definition compaction_line :: "proc \<Rightarrow> string" where
  "compaction_line pr =
     ''['' @ strftime pr ''%Y-%m-%d %H:%M:%S'' @ ''] Context compaction triggered'' @ [CHR 0x0A]"

definition compaction_note :: "proc \<Rightarrow> string" where
  "compaction_note pr =
     [CHR 0x0A] @ ''---'' @ [CHR 0x0A] @ ''**[Compaction occurred at '' @ strftime pr ''%H:%M''
     @ '']** - Context was summarized'' @ [CHR 0x0A]"

definition path_glob :: "pylib \<Rightarrow> world \<Rightarrow> path \<Rightarrow> string \<Rightarrow> py_error + path list" where
  "path_glob lib w d pattern =
     (if faulty w (SysScandirDenied d) then Inr []
      else if faulty w (SysScandir d) then Inl OSError
      else case map_of (nodes w) d of
             None \<Rightarrow> Inr []
           | Some n \<Rightarrow>
               if kind n = Directory
               then Inr (filter (\<lambda>q. path_parent q = d \<and> fnmatch lib pattern (path_name q))
                           (map fst (nodes w)))
               else Inr [])"

fun stat_mtimes :: "world \<Rightarrow> path list \<Rightarrow> py_error + (path \<times> rat) list" where
  \<comment> \<open>the keys \<open>p.stat().st_mtime\<close> of a sort\<close>
  "stat_mtimes w [] = Inr []"
| "stat_mtimes w (p # ps) =
     (case os_stat w p of
        Inl e \<Rightarrow> Inl e
      | Inr n \<Rightarrow> (case stat_mtimes w ps of Inl e \<Rightarrow> Inl e | Inr r \<Rightarrow> Inr ((p, mtime n) # r)))"

definition session_markers :: "pylib \<Rightarrow> world \<Rightarrow> path \<Rightarrow> py_error + path list" where
  \<comment> \<open>\<open>sorted(sessions_dir.glob("*-session.tmp"), key=lambda p: p.stat().st_mtime, reverse=True)\<close>\<close>
  "session_markers lib w sessions_dir =
     (case path_glob lib w sessions_dir ''*-session.tmp'' of
        Inl e \<Rightarrow> Inl e
      | Inr ps \<Rightarrow>
          (case stat_mtimes w ps of
             Inl e \<Rightarrow> Inl e
           | Inr keyed \<Rightarrow> Inr (map fst (sort_key (\<lambda>x. - snd x) keyed))))"

definition pre_compact_main :: "pylib \<Rightarrow> proc \<Rightarrow> world \<Rightarrow> (py_error \<times> world) + world" where
  "pre_compact_main lib pr w =
     (case mkdir_p w (now pr) (get_sessions_dir pr) of
        Inl e \<Rightarrow> Inl (e, w)
      | Inr w1 \<Rightarrow>
          (case append_text w1 (now pr) (compaction_log pr) (compaction_line pr) of
             Inl e \<Rightarrow> Inl (e, w1)
           | Inr w2 \<Rightarrow>
               (case session_markers lib w2 (get_sessions_dir pr) of
                  Inl e \<Rightarrow> Inl (e, w2)
                | Inr sessions \<Rightarrow>
                    (case (case sessions of
                             [] \<Rightarrow> Inr w2
                           | active_session # others \<Rightarrow>
                               append_text w2 (now pr) active_session (compaction_note pr)) of
                       Inl e \<Rightarrow> Inl (e, w2)
                     | Inr w3 \<Rightarrow>
                         Inr (print_stderr w3 (Line ''[PreCompact] State saved before compaction''))))))"

definition pre_compact_script :: "pylib \<Rightarrow> proc \<Rightarrow> world \<Rightarrow> world" where
  \<comment> \<open>the script: \<open>try: main()\<close>, \<open>except Exception as e:\<close> print the error\<close>
  "pre_compact_script lib pr w =
     (case pre_compact_main lib pr w of
        Inl (e, w1) \<Rightarrow> print_stderr w1 (ErrorLine ''[PreCompact] Error: '' e)
      | Inr w1 \<Rightarrow> w1)"

text \<open>
  Names for the statements about \<open>pre_compact.py\<close>: a marker is an entry of the sessions
  directory whose name matches \<open>*-session.tmp\<close>; the hook is unhindered when the system
  reports no fault for its calls and the paths it writes are not taken by a node of the
  wrong kind.
\<close>

definition is_marker :: "pylib \<Rightarrow> proc \<Rightarrow> path \<Rightarrow> bool" where
  "is_marker lib pr q =
     (path_parent q = get_sessions_dir pr \<and> fnmatch lib ''*-session.tmp'' (path_name q))"

definition pre_compact_unhindered :: "pylib \<Rightarrow> proc \<Rightarrow> world \<Rightarrow> bool" where
  "pre_compact_unhindered lib pr w =
     (\<not> faulty w (SysMkdir (get_sessions_dir pr))
      \<and> \<not> faulty w (SysOpenAppend (compaction_log pr))
      \<and> \<not> faulty w (SysScandir (get_sessions_dir pr))
      \<and> \<not> faulty w (SysScandirDenied (get_sessions_dir pr))
      \<and> (case map_of (nodes w) (get_sessions_dir pr) of
            None \<Rightarrow> True | Some d \<Rightarrow> kind d = Directory)
      \<and> (case map_of (nodes w) (compaction_log pr) of
            None \<Rightarrow> True | Some d \<Rightarrow> kind d = Regular)
      \<and> list_all (\<lambda>(q, n). is_marker lib pr q \<longrightarrow>
                     kind n = Regular \<and> \<not> faulty w (SysStat q) \<and> \<not> faulty w (SysOpenAppend q))
           (nodes w))"

section \<open>A concrete environment\<close>

text \<open>
  One process context and a family of file systems, for evaluating the definitions:
  the home directory \<open>/home/u\<close>, a fixed instant, no fault reported by the system, and
  a configuration directory holding the active log with the bytes \<open>c\<close>.
\<close>

definition example_proc :: proc where
  "example_proc =
     \<lparr>home = ''/home/u'', cwd = ''/work'', tmpdir = ''/tmp'', environ = [], stdin = None,
      now = 1704164645,
      strftime = (\<lambda>fmt. if fmt = ''%Y%m%d-%H%M%S'' then ''20240102-030405''
                        else if fmt = ''%Y-%m-%d'' then ''2024-01-02''
                        else if fmt = ''%H:%M'' then ''03:04''
                        else ''2024-01-02 03:04:05''),
      utc_strftime = (\<lambda>fmt. ''2024-01-02T03:04:05Z''),
      isoformat = ''2024-01-02T03:04:05.000000''\<rparr>"

definition example_log :: path where
  "example_log = ''/home/u/.claude/homunculus/observations.jsonl''"

definition example_archive :: path where
  "example_archive =
     ''/home/u/.claude/homunculus/observations.archive/observations-20240102-030405.jsonl''"

definition log_world :: "string \<Rightarrow> world" where
  "log_world c =
     \<lparr>nodes = [(''/home/u/.claude/homunculus'', Node Directory [] 0),
               (example_log, Node Regular c 0)],
      faulty = (\<lambda>call. False), stderr = []\<rparr>"

text \<open>
  A stand-in for the library: \<open>loads\<close> knows three texts (the event of the spec's first
  scenario, a start event whose input is the empty string, and a completion event) and
  rejects every other; \<open>dumps\<close> shows the keys and the string values of a flat dict;
  the only pattern it is asked to match is \<open>*-session.tmp\<close>.
  The theorems hold for every library; this one only serves to evaluate them.
\<close>

definition scenario1_text :: string where
  \<open>scenario1_text =
     ''{"hook_type":"PreToolUse","tool_name":"Edit","tool_input":{"path":"a.py"},"session_id":"abcdef1234"}''\<close>

definition empty_input_text :: string where
  \<open>empty_input_text = ''{"hook_type":"PreToolUse","tool_name":"Bash","tool_input":""}''\<close>

definition completion_text :: string where
  \<open>completion_text = ''{"hook_type":"PostToolUse","tool_name":"Bash","tool_output":"ok"}''\<close>

definition example_loads :: "string \<Rightarrow> json option" where
  "example_loads s =
     (if s = scenario1_text then
        Some (JDict [(''hook_type'', JStr ''PreToolUse''), (''tool_name'', JStr ''Edit''),
                     (''tool_input'', JDict [(''path'', JStr ''a.py'')]),
                     (''session_id'', JStr ''abcdef1234'')])
      else if s = empty_input_text then
        Some (JDict [(''hook_type'', JStr ''PreToolUse''), (''tool_name'', JStr ''Bash''),
                     (''tool_input'', JStr '''')])
      else if s = completion_text then
        Some (JDict [(''hook_type'', JStr ''PostToolUse''), (''tool_name'', JStr ''Bash''),
                     (''tool_output'', JStr ''ok'')])
      else None)"

definition example_dumps :: "json \<Rightarrow> string" where
  "example_dumps v =
     (case v of
        JDict d \<Rightarrow>
          ''{'' @ concat (map (\<lambda>kv. fst kv @ ''='' @ (case snd kv of JStr s \<Rightarrow> s | _ \<Rightarrow> ''..'') @ '';'') d) @ ''}''
      | _ \<Rightarrow> ''..'')"

definition example_lib :: pylib where
  "example_lib =
     \<lparr>loads = example_loads, dumps = example_dumps, dumps_indent = example_dumps,
      str_of = (\<lambda>v. ''..''), decode = Some, re_compile = (\<lambda>rx. Some (suffix ''-session.tmp'')),
      fnmatch = (\<lambda>pat name. suffix ''-session.tmp'' name),
      path_of = (\<lambda>s. s)\<rparr>"

text \<open>
  A temporary directory holding the counter of the session \<open>default\<close> with the text
  \<open>c\<close>.
\<close>

definition example_counter :: path where
  "example_counter = ''/tmp/claude-tool-count-default''"

definition counter_world :: "string \<Rightarrow> world" where
  "counter_world c =
     \<lparr>nodes = [(''/tmp'', Node Directory [] 0), (example_counter, Node Regular c 0)],
      faulty = (\<lambda>call. False), stderr = []\<rparr>"

text \<open>
  A transcript with \<open>k\<close> user messages in the compact encoding and \<open>l\<close> in the spaced
  one, one per line, at \<open>/work/t.jsonl\<close>; the script lives in \<open>/opt/hooks\<close>, which holds
  no configuration file.
\<close>

definition example_transcript :: "nat \<Rightarrow> nat \<Rightarrow> string" where
  \<open>example_transcript k l =
     concat (replicate k (''{"type":"user"}'' @ [CHR 0x0A]))
     @ concat (replicate l (''{"type": "user"}'' @ [CHR 0x0A]))\<close>

definition transcript_world :: "string \<Rightarrow> world" where
  "transcript_world c =
     \<lparr>nodes = [(''/work/t.jsonl'', Node Regular c 0)], faulty = (\<lambda>call. False), stderr = []\<rparr>"

definition transcript_proc :: proc where
  "transcript_proc = example_proc\<lparr>environ := [(''CLAUDE_TRANSCRIPT_PATH'', ''/work/t.jsonl'')]\<rparr>"

text \<open>
  The sessions directory as a scan sees it: marker files modified a given number of days
  before the instant of \<open>example_proc\<close>.
\<close>

definition example_sessions :: path where
  "example_sessions = ''/home/u/.claude/sessions''"

definition aged :: "string \<Rightarrow> rat \<Rightarrow> entry" where
  "aged name days = File name (1704164645 - days * 86400)"

definition marker_files :: "entry list" where
  "marker_files = [aged ''a-session.tmp'' 1, aged ''b-session.tmp'' 8, aged ''c-session.tmp'' 30]"

text \<open>
  The sessions directory as a file system: the marker of the current day and session
  \<open>default\<close>, if given, with its modification time, and the marker of an earlier day and
  another session, if given.
\<close>

definition current_marker :: path where
  "current_marker = ''/home/u/.claude/sessions/2024-01-02-default-session.tmp''"

definition other_marker :: path where
  "other_marker = ''/home/u/.claude/sessions/2023-12-30-abcd1234-session.tmp''"

definition sessions_world :: "(path \<times> node) list \<Rightarrow> world" where
  "sessions_world markers =
     \<lparr>nodes = (''/home/u/.claude/sessions'', Node Directory [] 0) # markers,
      faulty = (\<lambda>call. False), stderr = []\<rparr>"

definition example_metadata :: path where
  "example_metadata = ''/home/u/.claude/sessions/2024-01-02-default-metadata.json''"

section \<open>Verified properties\<close>

section \<open>File system lemmas\<close>

lemma path_join_inject [simp]: "path_join p a = path_join p b \<longleftrightarrow> a = b"
  by (simp add: path_join_def)

lemma is_below_longer: "is_below d q \<Longrightarrow> length d < length q"
  by (simp add: is_below_def)

lemma rename_entry_lookup_dst:
  "src \<noteq> dst \<Longrightarrow> map_of xs dst = None \<Longrightarrow>
   map_of (map (rename_entry src dst) xs) dst = map_of xs src"
proof (induction xs)
  case Nil
  then show ?case by simp
next
  case (Cons x xs)
  obtain q n where x: "x = (q, n)" by (cases x)
  from Cons.prems have q: "q \<noteq> dst" and rest: "map_of xs dst = None"
    by (auto simp: x split: if_splits)
  show ?case
  proof (cases "q = src")
    case True
    then show ?thesis by (simp add: x rename_entry_def)
  next
    case False
    have "fst (rename_entry src dst x) \<noteq> dst"
      using False q by (auto simp: x rename_entry_def is_below_def)
    moreover have "snd (rename_entry src dst x) = n"
      by (simp add: x rename_entry_def)
    ultimately show ?thesis
      using False Cons.IH [OF Cons.prems(1) rest]
      by (cases "rename_entry src dst x") (auto simp: x)
  qed
qed

lemma rename_entry_lookup_src:
  "src \<noteq> dst \<Longrightarrow> length src \<le> length dst \<Longrightarrow>
   map_of (map (rename_entry src dst) xs) src = None"
proof (induction xs)
  case Nil
  then show ?case by simp
next
  case (Cons x xs)
  obtain q n where x: "x = (q, n)" by (cases x)
  have "fst (rename_entry src dst x) \<noteq> src"
  proof (cases "is_below src q")
    case True
    then have "length src < length q"
      by (rule is_below_longer)
    then have "length src < length (dst @ drop (length src) q)"
      using Cons.prems(2) by simp
    then have "dst @ drop (length src) q \<noteq> src"
      by (metis less_irrefl)
    then show ?thesis using True Cons.prems(1) by (simp add: x rename_entry_def)
  next
    case False
    then show ?thesis using Cons.prems(1) by (auto simp: x rename_entry_def)
  qed
  then show ?case
    using Cons by (cases "rename_entry src dst x") auto
qed



lemma append_text_ok:
  assumes "\<not> faulty w (SysOpenAppend p)"
    and "case map_of (nodes w) p of None \<Rightarrow> True | Some d \<Rightarrow> kind d = Regular"
  shows "\<exists>w2. append_text w t p s = Inr w2 \<and> faulty w2 = faulty w \<and> stderr w2 = stderr w
           \<and> map_of (nodes w2) =
               (map_of (nodes w))
                 (p \<mapsto> Node Regular ((case map_of (nodes w) p of None \<Rightarrow> [] | Some n \<Rightarrow> content n) @ s) t)"
  using assms by (auto simp: append_text_def update_conv' split: option.splits)

lemma write_text_ok:
  assumes "\<not> faulty w (SysOpenWrite p)"
    and "case map_of (nodes w) p of None \<Rightarrow> True | Some d \<Rightarrow> kind d = Regular"
  shows "\<exists>w2. write_text w t p s = Inr w2 \<and> faulty w2 = faulty w \<and> stderr w2 = stderr w
           \<and> map_of (nodes w2) = (map_of (nodes w))(p \<mapsto> Node Regular s t)"
  using assms by (auto simp: write_text_def update_conv' split: option.splits)

lemma path_join_neq_dir: "path_join d name \<noteq> d"
  by (simp add: path_join_def)

lemma path_parent_shorter: "p \<noteq> [] \<Longrightarrow> length (path_parent p) < length p"
proof -
  assume p: "p \<noteq> []"
  define dw where "dw = dropWhile (\<lambda>c. c \<noteq> CHR ''/'') (rev p)"
  have le: "length dw \<le> length p"
    unfolding dw_def using length_dropWhile_le [of "\<lambda>c. c \<noteq> CHR ''/''" "rev p"] by simp
  have "length (path_parent p) = length dw - 1"
    by (simp add: path_parent_def dw_def)
  moreover have "0 < length p"
    using p by simp
  ultimately show ?thesis
    using le by arith
qed

lemma path_name_join:
  assumes "CHR ''/'' \<notin> set name"
  shows "path_name (path_join p name) = name"
proof -
  have "takeWhile (\<lambda>c. c \<noteq> CHR ''/'') (rev name @ CHR ''/'' # rev p)
          = rev name @ takeWhile (\<lambda>c. c \<noteq> CHR ''/'') (CHR ''/'' # rev p)"
    using assms by (intro takeWhile_append2) auto
  then show ?thesis
    by (simp add: path_name_def path_join_def)
qed

section \<open>Properties of the short session identifier\<close>

lemma slice_last_short: "length s \<le> n \<Longrightarrow> slice_last n s = s"
  by (simp add: slice_last_def)

lemma slice_last_length: "n \<le> length s \<Longrightarrow> length (slice_last n s) = n"
  by (simp add: slice_last_def)

lemma slice_last_suffix: "suffix (slice_last n s) s"
  by (simp add: slice_last_def suffix_drop)

lemma session_end_copy_agrees:
  "session_end_get_session_id_short env = get_session_id_short env ''default''"
  by (simp add: session_end_get_session_id_short_def get_session_id_short_def Let_def)

text \<open>
  C3, as stated, is false: an identifier that is set, not empty and shorter than 8
  characters is returned whole; it is not replaced by \<open>default\<close>. At
  \<open>CLAUDE_SESSION_ID=abc\<close> both copies of the function return \<open>abc\<close>.
\<close>

theorem C3_short_id_counterexample:
  "length ''abc'' < 8
   \<and> get_session_id_short [(''CLAUDE_SESSION_ID'', ''abc'')] ''default'' = ''abc''
   \<and> session_end_get_session_id_short [(''CLAUDE_SESSION_ID'', ''abc'')] = ''abc''
   \<and> ''abc'' \<noteq> ''default''"
  by (simp add: get_session_id_short_def session_end_get_session_id_short_def
      environ_get_default_def slice_last_def)

text \<open>
  C3, amended: the short session identifier is the literal \<open>default\<close> whenever the
  variable is unset or empty; for an identifier of 8 or more characters it is its last 8
  characters; a non-empty identifier shorter than 8 characters is returned unchanged.
  Both copies of the function (utils with its default fallback, and session_end) behave so.
\<close>

theorem C3_short_id:
  "session_end_get_session_id_short env = get_session_id_short env ''default''
   \<and> (map_of env ''CLAUDE_SESSION_ID'' = None \<or> map_of env ''CLAUDE_SESSION_ID'' = Some []
        \<longrightarrow> get_session_id_short env ''default'' = ''default'')
   \<and> (map_of env ''CLAUDE_SESSION_ID'' = Some s \<and> 8 \<le> length s
        \<longrightarrow> length (get_session_id_short env ''default'') = 8
            \<and> suffix (get_session_id_short env ''default'') s)
   \<and> (map_of env ''CLAUDE_SESSION_ID'' = Some s \<and> s \<noteq> [] \<and> length s < 8
        \<longrightarrow> get_session_id_short env ''default'' = s)"
  by (auto simp: session_end_copy_agrees get_session_id_short_def environ_get_default_def
      slice_last_length slice_last_suffix slice_last_short)

theorem C3_short_id_witness:
  "get_session_id_short [] ''default'' = ''default''
   \<and> get_session_id_short [(''CLAUDE_SESSION_ID'', '''')] ''default'' = ''default''
   \<and> get_session_id_short [(''CLAUDE_SESSION_ID'', ''abcdef1234'')] ''default'' = ''cdef1234''
   \<and> session_end_get_session_id_short [(''CLAUDE_SESSION_ID'', ''abcdef1234'')] = ''cdef1234''
   \<and> get_session_id_short [(''CLAUDE_SESSION_ID'', ''abc'')] ''default'' = ''abc''"
proof -
  have a: "get_session_id_short [] ''default'' = ''default''"
    using C3_short_id [of "[]"] by simp
  have b: "get_session_id_short [(''CLAUDE_SESSION_ID'', '''')] ''default'' = ''default''"
    using C3_short_id [of "[(''CLAUDE_SESSION_ID'', '''')]"] by simp
  have c: "get_session_id_short [(''CLAUDE_SESSION_ID'', ''abcdef1234'')] ''default'' = ''cdef1234''"
    using C3_short_id [of "[(''CLAUDE_SESSION_ID'', ''abcdef1234'')]" "''abcdef1234''"]
    by (auto simp: suffix_def Cons_eq_append_conv append_eq_Cons_conv length_Suc_conv)
  have d: "session_end_get_session_id_short [(''CLAUDE_SESSION_ID'', ''abcdef1234'')] = ''cdef1234''"
    using C3_short_id [of "[(''CLAUDE_SESSION_ID'', ''abcdef1234'')]"] c by simp
  have e: "get_session_id_short [(''CLAUDE_SESSION_ID'', ''abc'')] ''default'' = ''abc''"
    using C3_short_id [of "[(''CLAUDE_SESSION_ID'', ''abc'')]" "''abc''"] by simp
  show ?thesis using a b c d e by simp
qed

section \<open>Rotation of the observations log\<close>

lemma observations_paths:
  "get_observations_file pr \<noteq> observations_archive_dir pr"
  "get_observations_file pr \<noteq> observations_archive_path pr"
  "observations_archive_dir pr \<noteq> observations_archive_path pr"
  "length (get_observations_file pr) \<le> length (observations_archive_path pr)"
  "\<not> is_below (get_observations_file pr) (observations_archive_path pr)"
  by (simp_all add: get_observations_file_def observations_archive_dir_def
      observations_archive_path_def path_join_def is_below_def)

lemma archive_if_needed_named:
  "archive_if_needed pr w f m =
     (if \<not> path_exists w f then w
      else case os_stat w f of
             Inl e \<Rightarrow> w
           | Inr st \<Rightarrow>
               if (of_nat (st_size st) :: rat) / (1024 * 1024) \<ge> of_int m then
                 (case mkdir_p w (now pr) (observations_archive_dir pr) of
                    Inl e \<Rightarrow> w
                  | Inr w1 \<Rightarrow>
                      (case os_rename w1 f (observations_archive_path pr) of
                         Inl e \<Rightarrow> w1
                       | Inr w2 \<Rightarrow> w2))
               else w)"
  unfolding archive_if_needed_def observations_archive_dir_def observations_archive_path_def
    Let_def by (rule refl)

lemma archive_if_needed_absent:
  "\<not> path_exists w f \<Longrightarrow> archive_if_needed pr w f m = w"
  by (simp add: archive_if_needed_def)

lemma archive_if_needed_below:
  "map_of (nodes w) f = Some n \<Longrightarrow> (of_nat (st_size n) :: rat) / (1024 * 1024) < of_int m \<Longrightarrow>
   archive_if_needed pr w f m = w"
  by (auto simp: archive_if_needed_def os_stat_def Let_def split: sum.splits)

lemma mkdir_p_ok:
  "\<not> faulty w (SysMkdir d) \<Longrightarrow>
   (case map_of (nodes w) d of None \<Rightarrow> True | Some x \<Rightarrow> kind x = Directory) \<Longrightarrow>
   \<exists>w1. mkdir_p w t d = Inr w1 \<and> faulty w1 = faulty w \<and> stderr w1 = stderr w
        \<and> (\<forall>p. p \<noteq> d \<longrightarrow> map_of (nodes w1) p = map_of (nodes w) p)
        \<and> (\<exists>x. map_of (nodes w1) d = Some x \<and> kind x = Directory)"
  by (auto simp: mkdir_p_def map_add_def split: option.splits)

lemma os_rename_file:
  assumes "\<not> faulty w (SysRename src dst)" "map_of (nodes w) src = Some n" "kind n = Regular"
    and "src \<noteq> dst" "\<not> is_below src dst" "length src \<le> length dst"
    and "case map_of (nodes w) dst of None \<Rightarrow> True | Some d \<Rightarrow> kind d = Regular"
  shows "\<exists>w2. os_rename w src dst = Inr w2 \<and> map_of (nodes w2) src = None
           \<and> map_of (nodes w2) dst = Some n"
proof (cases "map_of (nodes w) dst")
  case None
  then show ?thesis using assms
    by (simp add: os_rename_def rename_entry_lookup_src rename_entry_lookup_dst)
next
  case (Some d)
  have "map_of (AList.delete dst (nodes w)) dst = None"
    by (simp add: delete_conv')
  moreover have "map_of (AList.delete dst (nodes w)) src = Some n"
    using assms by (simp add: delete_conv')
  ultimately show ?thesis using assms Some
    by (simp add: os_rename_def rename_entry_lookup_src rename_entry_lookup_dst)
qed

lemma archive_if_needed_rotates:
  assumes n: "map_of (nodes w) (get_observations_file pr) = Some n" "kind n = Regular"
    and u: "rotation_unhindered pr w"
    and big: "(of_nat (st_size n) :: rat) / (1024 * 1024) \<ge> of_int m"
  shows "map_of (nodes (archive_if_needed pr w (get_observations_file pr) m)) (get_observations_file pr) = None
       \<and> map_of (nodes (archive_if_needed pr w (get_observations_file pr) m)) (observations_archive_path pr) = Some n"
proof -
  let ?f = "get_observations_file pr" and ?d = "observations_archive_dir pr"
    and ?a = "observations_archive_path pr"
  from u obtain w1 where w1: "mkdir_p w (now pr) ?d = Inr w1" "faulty w1 = faulty w"
      "\<forall>p. p \<noteq> ?d \<longrightarrow> map_of (nodes w1) p = map_of (nodes w) p"
    using mkdir_p_ok [of w ?d "now pr"] by (auto simp: rotation_unhindered_def)
  have f1: "map_of (nodes w1) ?f = Some n"
    using w1(3) n observations_paths(1) [of pr] by simp
  have a1: "map_of (nodes w1) ?a = map_of (nodes w) ?a"
    using w1(3) observations_paths(3) [of pr] by metis
  obtain w2 where w2: "os_rename w1 ?f ?a = Inr w2" "map_of (nodes w2) ?f = None"
      "map_of (nodes w2) ?a = Some n"
    using os_rename_file [of w1 ?f ?a n] f1 n(2) u a1 w1(2) observations_paths [of pr]
    by (auto simp: rotation_unhindered_def)
  have "archive_if_needed pr w ?f m = w2"
    using n u big w1(1) w2(1)
    by (simp add: archive_if_needed_named path_exists_def os_stat_def rotation_unhindered_def)
  then show ?thesis using w2 by simp
qed

lemma example_paths:
  "get_observations_file example_proc = example_log"
  "observations_archive_path example_proc = example_archive"
  "observations_archive_dir example_proc = ''/home/u/.claude/homunculus/observations.archive''"
  "get_config_dir example_proc = ''/home/u/.claude/homunculus''"
  by (simp_all add: get_observations_file_def observations_archive_path_def
      observations_archive_dir_def get_config_dir_def path_join_def example_proc_def
      example_log_def example_archive_def)

text \<open>
  C2: for the active log, \<open>archive_if_needed\<close> leaves the file system as it is when the
  log does not exist, and when its size in megabytes (bytes divided by \<open>1024 * 1024\<close>)
  is below \<open>max_size_mb\<close>; an existing log file is renamed to the archive path (gone
  from its own path, its node found at the archive path) if and only if its size in
  megabytes is at least \<open>max_size_mb\<close>. A log of exactly \<open>max_size_mb\<close> megabytes is
  rotated, one of a byte less is not. The rotation itself is stated for a system that
  raises no \<open>OSError\<close> in it (\<open>rotation_unhindered\<close>): the function swallows such an
  error and then leaves the log in place.
\<close>

theorem C2_archive_threshold:
  "(\<not> path_exists w (get_observations_file pr)
      \<longrightarrow> archive_if_needed pr w (get_observations_file pr) m = w)
   \<and> (map_of (nodes w) (get_observations_file pr) = Some n
        \<and> (of_nat (st_size n) :: rat) / (1024 * 1024) < of_int m
      \<longrightarrow> archive_if_needed pr w (get_observations_file pr) m = w)
   \<and> (map_of (nodes w) (get_observations_file pr) = Some n \<and> kind n = Regular
        \<and> rotation_unhindered pr w
      \<longrightarrow> ((map_of (nodes (archive_if_needed pr w (get_observations_file pr) m))
               (get_observations_file pr) = None
            \<and> map_of (nodes (archive_if_needed pr w (get_observations_file pr) m))
               (observations_archive_path pr) = Some n)
           \<longleftrightarrow> (of_nat (st_size n) :: rat) / (1024 * 1024) \<ge> of_int m))
   \<and> (map_of (nodes w) (get_observations_file pr) = Some n \<and> kind n = Regular
        \<and> rotation_unhindered pr w \<and> int (st_size n) = m * (1024 * 1024)
      \<longrightarrow> map_of (nodes (archive_if_needed pr w (get_observations_file pr) m))
               (get_observations_file pr) = None
          \<and> map_of (nodes (archive_if_needed pr w (get_observations_file pr) m))
               (observations_archive_path pr) = Some n)
   \<and> (map_of (nodes w) (get_observations_file pr) = Some n
        \<and> int (st_size n) + 1 = m * (1024 * 1024)
      \<longrightarrow> archive_if_needed pr w (get_observations_file pr) m = w)"
proof -
  let ?f = "get_observations_file pr"
  let ?w' = "archive_if_needed pr w ?f m"
  let ?rotated = "map_of (nodes ?w') ?f = None \<and> map_of (nodes ?w') (observations_archive_path pr) = Some n"
  let ?size_mb = "(of_nat (st_size n) :: rat) / (1024 * 1024)"
  have c1: "\<not> path_exists w ?f \<longrightarrow> ?w' = w"
    by (simp add: archive_if_needed_absent)
  have c2: "map_of (nodes w) ?f = Some n \<and> ?size_mb < of_int m \<longrightarrow> ?w' = w"
    by (simp add: archive_if_needed_below)
  have c3: "map_of (nodes w) ?f = Some n \<and> kind n = Regular \<and> rotation_unhindered pr w
      \<longrightarrow> (?rotated \<longleftrightarrow> ?size_mb \<ge> of_int m)"
  proof
    assume a: "map_of (nodes w) ?f = Some n \<and> kind n = Regular \<and> rotation_unhindered pr w"
    show "?rotated \<longleftrightarrow> ?size_mb \<ge> of_int m"
    proof (cases "?size_mb \<ge> of_int m")
      case True
      then show ?thesis using a archive_if_needed_rotates [of w pr n m] by simp
    next
      case False
      then have "?w' = w"
        using a archive_if_needed_below [of w ?f n m pr] by simp
      then show ?thesis using a False by simp
    qed
  qed
  have c4: "map_of (nodes w) ?f = Some n \<and> kind n = Regular \<and> rotation_unhindered pr w
      \<and> int (st_size n) = m * (1024 * 1024) \<longrightarrow> ?rotated"
  proof
    assume a: "map_of (nodes w) ?f = Some n \<and> kind n = Regular \<and> rotation_unhindered pr w
      \<and> int (st_size n) = m * (1024 * 1024)"
    then have "(of_int (int (st_size n)) :: rat) = of_int (m * (1024 * 1024))"
      by simp
    then have "?size_mb \<ge> of_int m"
      by simp
    then show ?rotated
      using a archive_if_needed_rotates [of w pr n m] by simp
  qed
  have c5: "map_of (nodes w) ?f = Some n \<and> int (st_size n) + 1 = m * (1024 * 1024) \<longrightarrow> ?w' = w"
  proof
    assume a: "map_of (nodes w) ?f = Some n \<and> int (st_size n) + 1 = m * (1024 * 1024)"
    then have "(of_int (int (st_size n) + 1) :: rat) = of_int (m * (1024 * 1024))"
      by simp
    then have "?size_mb < of_int m"
      by (simp add: field_simps)
    then show "?w' = w"
      using a archive_if_needed_below [of w ?f n m pr] by simp
  qed
  show ?thesis
    by (intro conjI c1 c2 c3 c4 c5)
qed

theorem C2_archive_threshold_witness:
  "map_of (nodes (archive_if_needed example_proc (log_world (replicate 1048576 (CHR ''x''))) example_log 1))
      example_log = None
   \<and> map_of (nodes (archive_if_needed example_proc (log_world (replicate 1048576 (CHR ''x''))) example_log 1))
      example_archive = Some (Node Regular (replicate 1048576 (CHR ''x'')) 0)
   \<and> archive_if_needed example_proc (log_world (replicate 1048575 (CHR ''x''))) example_log 1
      = log_world (replicate 1048575 (CHR ''x''))
   \<and> archive_if_needed example_proc \<lparr>nodes = [], faulty = (\<lambda>call. False), stderr = []\<rparr> example_log 1
      = \<lparr>nodes = [], faulty = (\<lambda>call. False), stderr = []\<rparr>"
proof -
  let ?big = "replicate 1048576 (CHR ''x'')" and ?small = "replicate 1048575 (CHR ''x'')"
  have u: "rotation_unhindered example_proc (log_world ?big)"
    by (simp add: rotation_unhindered_def log_world_def example_paths example_log_def example_archive_def)
  have n: "map_of (nodes (log_world c)) example_log = Some (Node Regular c 0)" for c
    by (simp add: log_world_def example_log_def)
  have a: "map_of (nodes (archive_if_needed example_proc (log_world ?big) example_log 1)) example_log = None
     \<and> map_of (nodes (archive_if_needed example_proc (log_world ?big) example_log 1)) example_archive
        = Some (Node Regular ?big 0)"
    using C2_archive_threshold [of "log_world ?big" example_proc 1 "Node Regular ?big 0"] u n
    by (simp add: example_paths st_size_def)
  have b: "archive_if_needed example_proc (log_world ?small) example_log 1 = log_world ?small"
    using C2_archive_threshold [of "log_world ?small" example_proc 1 "Node Regular ?small 0"] n
    by (simp add: example_paths st_size_def)
  have c: "archive_if_needed example_proc \<lparr>nodes = [], faulty = (\<lambda>call. False), stderr = []\<rparr> example_log 1
      = \<lparr>nodes = [], faulty = (\<lambda>call. False), stderr = []\<rparr>"
    using C2_archive_threshold [of "\<lparr>nodes = [], faulty = (\<lambda>call. False), stderr = []\<rparr>" example_proc 1]
    by (simp add: example_paths path_exists_def)
  show ?thesis using a b c by simp
qed

section \<open>The observation hook\<close>

lemma strip_empty_iff: "strip s = [] \<longleftrightarrow> (\<forall>c \<in> set s. py_isspace c)"
proof
  assume "strip s = []"
  then have "\<forall>c \<in> set (dropWhile py_isspace s). py_isspace c"
    by (simp add: strip_def dropWhile_eq_Nil_conv)
  then have "dropWhile py_isspace s = []"
    by (metis hd_dropWhile list.set_sel(1))
  then show "\<forall>c \<in> set s. py_isspace c"
    by (simp add: dropWhile_eq_Nil_conv)
next
  assume "\<forall>c \<in> set s. py_isspace c"
  then have "dropWhile py_isspace s = []"
    by (simp add: dropWhile_eq_Nil_conv)
  then show "strip s = []"
    unfolding strip_def by (simp only: rev.simps dropWhile.simps)
qed

lemma path_parent_join:
  assumes "CHR ''/'' \<notin> set name"
  shows "path_parent (path_join p name) = p"
proof -
  have "dropWhile (\<lambda>c. c \<noteq> CHR ''/'') (rev name @ CHR ''/'' # rev p)
          = dropWhile (\<lambda>c. c \<noteq> CHR ''/'') (CHR ''/'' # rev p)"
    using assms by (intro dropWhile_append2) auto
  then show ?thesis
    by (simp add: path_parent_def path_join_def)
qed

lemma observations_parent: "path_parent (get_observations_file pr) = get_config_dir pr"
  by (simp add: get_observations_file_def path_parent_join)

lemma mkdir_p_frame:
  "mkdir_p w t d = Inr w1 \<Longrightarrow>
     faulty w1 = faulty w \<and> stderr w1 = stderr w
     \<and> (\<forall>p. p \<noteq> d \<longrightarrow> map_of (nodes w1) p = map_of (nodes w) p)
     \<and> (\<exists>x. map_of (nodes w1) d = Some x \<and> kind x = Directory)"
  by (auto simp: mkdir_p_def map_add_def split: option.splits if_splits)

lemma observe_main_blank:
  assumes "stdin pr = Some s" "\<forall>c \<in> set s. py_isspace c"
  shows "observe_main lib pr w =
           (case mkdir_p w (now pr) (get_config_dir pr) of
              Inl e \<Rightarrow> Inl (e, w) | Inr w1 \<Rightarrow> Inr w1)"
  using assms strip_empty_iff [of s]
  by (simp add: observe_main_def Let_def split: sum.splits)

lemma observe_main_blank_frame:
  assumes "stdin pr = Some s" "\<forall>c \<in> set s. py_isspace c"
  shows "(\<forall>p. p \<noteq> get_config_dir pr \<longrightarrow>
           map_of (nodes (final_world (observe_main lib pr w))) p = map_of (nodes w) p)
     \<and> stderr (final_world (observe_main lib pr w)) = stderr w
     \<and> (\<forall>e w'. observe_main lib pr w = Inl (e, w') \<longrightarrow> w' = w)"
proof (cases "mkdir_p w (now pr) (get_config_dir pr)")
  case (Inl e)
  then have "observe_main lib pr w = Inl (e, w)"
    using assms by (simp add: observe_main_blank)
  then show ?thesis
    by (simp add: final_world_def)
next
  case (Inr w1)
  then have "observe_main lib pr w = Inr w1"
    using assms by (simp add: observe_main_blank)
  then show ?thesis
    using mkdir_p_frame [OF Inr] by (simp add: final_world_def)
qed

text \<open>
  C10: when standard input holds only whitespace (or nothing), the observation hook
  appends no record and rotates nothing: whatever the outcome, the active log is found
  exactly as it was (absent, or with the same bytes and time), and so is every other path
  but the configuration directory, which the hook creates when it is missing; nothing is
  printed, and if creating that directory raises, the file system is untouched. This
  holds whether or not the \<open>disabled\<close> sentinel is there.
\<close>

theorem C10_blank_stdin:
  "stdin pr = Some s \<and> (\<forall>c \<in> set s. py_isspace c) \<longrightarrow>
     map_of (nodes (final_world (observe_main lib pr w))) (get_observations_file pr)
       = map_of (nodes w) (get_observations_file pr)
     \<and> (\<forall>p. p \<noteq> get_config_dir pr \<longrightarrow>
           map_of (nodes (final_world (observe_main lib pr w))) p = map_of (nodes w) p)
     \<and> stderr (final_world (observe_main lib pr w)) = stderr w
     \<and> (\<forall>e w'. observe_main lib pr w = Inl (e, w') \<longrightarrow> w' = w)"
proof
  assume a: "stdin pr = Some s \<and> (\<forall>c \<in> set s. py_isspace c)"
  then have a1: "stdin pr = Some s" and a2: "\<forall>c \<in> set s. py_isspace c"
    by simp_all
  have f: "get_observations_file pr \<noteq> get_config_dir pr"
    by (simp add: get_observations_file_def path_join_def)
  have fr: "(\<forall>p. p \<noteq> get_config_dir pr \<longrightarrow>
           map_of (nodes (final_world (observe_main lib pr w))) p = map_of (nodes w) p)
     \<and> stderr (final_world (observe_main lib pr w)) = stderr w
     \<and> (\<forall>e w'. observe_main lib pr w = Inl (e, w') \<longrightarrow> w' = w)"
    by (rule observe_main_blank_frame [OF a1 a2])
  then have "map_of (nodes (final_world (observe_main lib pr w))) (get_observations_file pr)
       = map_of (nodes w) (get_observations_file pr)"
    using f by simp
  then show "map_of (nodes (final_world (observe_main lib pr w))) (get_observations_file pr)
       = map_of (nodes w) (get_observations_file pr)
     \<and> (\<forall>p. p \<noteq> get_config_dir pr \<longrightarrow>
           map_of (nodes (final_world (observe_main lib pr w))) p = map_of (nodes w) p)
     \<and> stderr (final_world (observe_main lib pr w)) = stderr w
     \<and> (\<forall>e w'. observe_main lib pr w = Inl (e, w') \<longrightarrow> w' = w)"
    using fr by (intro conjI) simp_all
qed

lemma example_config_dir: "get_config_dir example_proc = ''/home/u/.claude/homunculus''"
  by (simp add: get_config_dir_def path_join_def example_proc_def)

theorem C10_blank_stdin_witness:
  "map_of (nodes (final_world (observe_main example_lib
       (example_proc\<lparr>stdin := Some [CHR '' '', CHR 0x0A, CHR 0x09]\<rparr>) (log_world ''abc''))))
     example_log = Some (Node Regular ''abc'' 0)
   \<and> stderr (final_world (observe_main example_lib
       (example_proc\<lparr>stdin := Some [CHR '' '', CHR 0x0A, CHR 0x09]\<rparr>) (log_world ''abc''))) = []"
  using C10_blank_stdin [of "example_proc\<lparr>stdin := Some [CHR '' '', CHR 0x0A, CHR 0x09]\<rparr>"
      "[CHR '' '', CHR 0x0A, CHR 0x09]" example_lib "log_world ''abc''"]
  by (simp add: py_isspace_def example_paths log_world_def example_log_def
      get_observations_file_def get_config_dir_def path_join_def example_proc_def)

lemma parse_hook_input_dict:
  "loads lib js = Some (JDict data) \<Longrightarrow>
   parse_hook_input lib js =
     (case py_in ''Pre'' (dict_get data ''hook_type'' (JStr ''unknown'')) of
        Inl e \<Rightarrow> ParseFailed
      | Inr is_pre \<Rightarrow>
          Parsed (if is_pre then ''tool_start'' else ''tool_complete'')
            (dict_get data ''tool_name'' (dict_get data ''tool'' (JStr ''unknown'')))
            (if is_pre then Some (truncated_str lib
                 (dict_get data ''tool_input'' (dict_get data ''input'' (JDict [])))) else None)
            (if is_pre then None else Some (truncated_str lib
                 (dict_get data ''tool_output'' (dict_get data ''output'' (JStr '''')))))
            (dict_get data ''session_id'' (JStr ''unknown'')))"
  by (simp add: parse_hook_input_def Let_def split: sum.splits)

lemma build_observation_keys:
  "''input'' \<in> fst ` set (build_observation ts p) \<longleftrightarrow> (\<exists>s. p_input p = Some s \<and> s \<noteq> [])"
  "''output'' \<in> fst ` set (build_observation ts p) \<longleftrightarrow> (\<exists>s. p_output p = Some s \<and> s \<noteq> [])"
  by (auto simp: build_observation_def optional_field_def truthy_def split: option.splits)

lemma build_observation_lookup:
  "p_input p = Some s \<Longrightarrow> s \<noteq> [] \<Longrightarrow> map_of (build_observation ts p) ''input'' = Some (JStr s)"
  "p_output p = Some s \<Longrightarrow> s \<noteq> [] \<Longrightarrow> map_of (build_observation ts p) ''output'' = Some (JStr s)"
  by (auto simp: build_observation_def optional_field_def truthy_def split: option.splits)

text \<open>
  C9: for every hook event that \<open>parse_hook_input\<close> parses (the input is a JSON object
  and the membership test on \<open>hook_type\<close> does not raise), the event is \<open>tool_start\<close> or
  \<open>tool_complete\<close>, and the observation record built from it has the key \<open>input\<close> if
  and only if the event is \<open>tool_start\<close> and the truncated serialization of the tool
  input is not empty, and the key \<open>output\<close> if and only if the event is
  \<open>tool_complete\<close> and the truncated serialization of the tool output is not empty; a
  key that is present holds that truncated serialization.
\<close>

theorem C9_optional_keys:
  "loads lib js = Some (JDict data) \<and> parse_hook_input lib js = Parsed ev tn inp outp ss \<longrightarrow>
     (ev = ''tool_start'' \<or> ev = ''tool_complete'')
     \<and> (''input'' \<in> set (map fst (build_observation ts (parse_hook_input lib js)))
          \<longleftrightarrow> ev = ''tool_start''
              \<and> truncated_str lib (dict_get data ''tool_input'' (dict_get data ''input'' (JDict []))) \<noteq> [])
     \<and> (''output'' \<in> set (map fst (build_observation ts (parse_hook_input lib js)))
          \<longleftrightarrow> ev = ''tool_complete''
              \<and> truncated_str lib (dict_get data ''tool_output'' (dict_get data ''output'' (JStr ''''))) \<noteq> [])
     \<and> (''input'' \<in> set (map fst (build_observation ts (parse_hook_input lib js)))
          \<longrightarrow> map_of (build_observation ts (parse_hook_input lib js)) ''input''
              = Some (JStr (truncated_str lib
                   (dict_get data ''tool_input'' (dict_get data ''input'' (JDict []))))))
     \<and> (''output'' \<in> set (map fst (build_observation ts (parse_hook_input lib js)))
          \<longrightarrow> map_of (build_observation ts (parse_hook_input lib js)) ''output''
              = Some (JStr (truncated_str lib
                   (dict_get data ''tool_output'' (dict_get data ''output'' (JStr ''''))))))"
proof
  assume a: "loads lib js = Some (JDict data) \<and> parse_hook_input lib js = Parsed ev tn inp outp ss"
  then obtain is_pre where p: "py_in ''Pre'' (dict_get data ''hook_type'' (JStr ''unknown'')) = Inr is_pre"
    using parse_hook_input_dict [of lib js data] by (auto split: sum.splits)
  have ev: "ev = (if is_pre then ''tool_start'' else ''tool_complete'')"
    and inp: "inp = (if is_pre then Some (truncated_str lib
                 (dict_get data ''tool_input'' (dict_get data ''input'' (JDict [])))) else None)"
    and outp: "outp = (if is_pre then None else Some (truncated_str lib
                 (dict_get data ''tool_output'' (dict_get data ''output'' (JStr '''')))))"
    using a p parse_hook_input_dict [of lib js data] by simp_all
  show "(ev = ''tool_start'' \<or> ev = ''tool_complete'')
     \<and> (''input'' \<in> set (map fst (build_observation ts (parse_hook_input lib js)))
          \<longleftrightarrow> ev = ''tool_start''
              \<and> truncated_str lib (dict_get data ''tool_input'' (dict_get data ''input'' (JDict []))) \<noteq> [])
     \<and> (''output'' \<in> set (map fst (build_observation ts (parse_hook_input lib js)))
          \<longleftrightarrow> ev = ''tool_complete''
              \<and> truncated_str lib (dict_get data ''tool_output'' (dict_get data ''output'' (JStr ''''))) \<noteq> [])
     \<and> (''input'' \<in> set (map fst (build_observation ts (parse_hook_input lib js)))
          \<longrightarrow> map_of (build_observation ts (parse_hook_input lib js)) ''input''
              = Some (JStr (truncated_str lib
                   (dict_get data ''tool_input'' (dict_get data ''input'' (JDict []))))))
     \<and> (''output'' \<in> set (map fst (build_observation ts (parse_hook_input lib js)))
          \<longrightarrow> map_of (build_observation ts (parse_hook_input lib js)) ''output''
              = Some (JStr (truncated_str lib
                   (dict_get data ''tool_output'' (dict_get data ''output'' (JStr ''''))))))"
    using a ev inp outp build_observation_lookup [of "parse_hook_input lib js" _ ts]
    by (cases is_pre) (simp_all add: build_observation_keys)
qed

lemma example_parses:
  "parse_hook_input example_lib empty_input_text
     = Parsed ''tool_start'' (JStr ''Bash'') (Some []) None (JStr ''unknown'')"
  "parse_hook_input example_lib scenario1_text
     = Parsed ''tool_start'' (JStr ''Edit'') (Some ''{path=a.py;}'') None (JStr ''abcdef1234'')"
  "parse_hook_input example_lib completion_text
     = Parsed ''tool_complete'' (JStr ''Bash'') None (Some ''ok'') (JStr ''unknown'')"
  by (simp_all add: parse_hook_input_def example_lib_def example_loads_def scenario1_text_def
      empty_input_text_def completion_text_def dict_get_def py_in_def truncated_str_def
      py_str_def example_dumps_def)

theorem C9_optional_keys_witness:
  "''input'' \<notin> set (map fst (build_observation ''t'' (parse_hook_input example_lib empty_input_text)))
   \<and> p_event (parse_hook_input example_lib empty_input_text) = ''tool_start''
   \<and> map_of (build_observation ''t'' (parse_hook_input example_lib scenario1_text)) ''input''
       = Some (JStr ''{path=a.py;}'')
   \<and> ''output'' \<notin> set (map fst (build_observation ''t'' (parse_hook_input example_lib scenario1_text)))
   \<and> map_of (build_observation ''t'' (parse_hook_input example_lib completion_text)) ''output''
       = Some (JStr ''ok'')
   \<and> ''input'' \<notin> set (map fst (build_observation ''t'' (parse_hook_input example_lib completion_text)))"
proof -
  have l1: "loads example_lib empty_input_text
      = Some (JDict [(''hook_type'', JStr ''PreToolUse''), (''tool_name'', JStr ''Bash''),
                     (''tool_input'', JStr '''')])"
    by (simp add: example_lib_def example_loads_def scenario1_text_def empty_input_text_def)
  have l2: "loads example_lib scenario1_text
      = Some (JDict [(''hook_type'', JStr ''PreToolUse''), (''tool_name'', JStr ''Edit''),
                     (''tool_input'', JDict [(''path'', JStr ''a.py'')]),
                     (''session_id'', JStr ''abcdef1234'')])"
    by (simp add: example_lib_def example_loads_def)
  have l3: "loads example_lib completion_text
      = Some (JDict [(''hook_type'', JStr ''PostToolUse''), (''tool_name'', JStr ''Bash''),
                     (''tool_output'', JStr ''ok'')])"
    by (simp add: example_lib_def example_loads_def scenario1_text_def empty_input_text_def
        completion_text_def)
  have a: "''input'' \<notin> set (map fst (build_observation ''t'' (parse_hook_input example_lib empty_input_text)))"
    using C9_optional_keys [of example_lib empty_input_text _ "''tool_start''" "JStr ''Bash''"
        "Some []" None "JStr ''unknown''" "''t''"] l1 example_parses(1)
    by (simp add: dict_get_def truncated_str_def py_str_def)
  have b: "map_of (build_observation ''t'' (parse_hook_input example_lib scenario1_text)) ''input''
       = Some (JStr ''{path=a.py;}'')
     \<and> ''output'' \<notin> set (map fst (build_observation ''t'' (parse_hook_input example_lib scenario1_text)))"
    using C9_optional_keys [of example_lib scenario1_text _ "''tool_start''" "JStr ''Edit''"
        "Some ''{path=a.py;}''" None "JStr ''abcdef1234''" "''t''"] l2 example_parses(2)
    by (simp add: dict_get_def truncated_str_def py_str_def example_lib_def example_dumps_def)
  have c: "map_of (build_observation ''t'' (parse_hook_input example_lib completion_text)) ''output''
       = Some (JStr ''ok'')
     \<and> ''input'' \<notin> set (map fst (build_observation ''t'' (parse_hook_input example_lib completion_text)))"
    using C9_optional_keys [of example_lib completion_text _ "''tool_complete''" "JStr ''Bash''"
        None "Some ''ok''" "JStr ''unknown''" "''t''"] l3 example_parses(3)
    by (simp add: dict_get_def truncated_str_def py_str_def)
  show ?thesis
    using a b c example_parses(1) by simp
qed



lemma observe_main_parsed:
  assumes "mkdir_p w (now pr) (get_config_dir pr) = Inr w1"
    and "\<not> path_exists w1 (path_join (get_config_dir pr) ''disabled'')"
    and "stdin pr = Some s" "strip s \<noteq> []"
    and "parse_hook_input lib s = Parsed ev tn inp outp ss"
  shows "observe_main lib pr w =
           write_observation lib pr (archive_if_needed pr w1 (get_observations_file pr) 10)
             (build_observation (utc_strftime pr ''%Y-%m-%dT%H:%M:%SZ'') (Parsed ev tn inp outp ss))
             (get_observations_file pr)"
  using assms by (simp add: observe_main_def Let_def)

lemma observe_main_parse_error:
  assumes "mkdir_p w (now pr) (get_config_dir pr) = Inr w1"
    and "\<not> path_exists w1 (path_join (get_config_dir pr) ''disabled'')"
    and "stdin pr = Some s" "strip s \<noteq> []"
    and "parse_hook_input lib s = ParseFailed"
  shows "observe_main lib pr w =
           write_observation lib pr w1
             [(''timestamp'', JStr (utc_strftime pr ''%Y-%m-%dT%H:%M:%SZ'')),
              (''event'', JStr ''parse_error''), (''raw'', JStr (take 1000 s))]
             (get_observations_file pr)"
  using assms by (simp add: observe_main_def Let_def)

lemma strip_not_json: "strip ''not json'' \<noteq> []"
  by (simp add: strip_empty_iff py_isspace_def)

lemma log_world_rotation_unhindered: "rotation_unhindered example_proc (log_world c)"
  by (simp add: rotation_unhindered_def log_world_def example_paths example_log_def
      example_archive_def)

text \<open>
  Claim C1 (rotation check before every append, the \<open>parse_error\<close> record included).
  In \<open>main\<close> the branch for input that does not parse writes its record and exits
  before \<open>archive_if_needed\<close> is reached; only a parsed event is preceded by the size
  check (\<open>observe_main_parsed\<close>). On the input \<open>not json\<close> with an active log of
  exactly 10 MiB, \<open>main\<close> appends the \<open>parse_error\<close> record to that log, which stays
  where it is, and archives nothing; \<open>archive_if_needed\<close> run on the same file system
  moves the log to the archive path.
\<close>

theorem C1_parse_error_not_rotated:
  "observe_main example_lib (example_proc\<lparr>stdin := Some ''not json''\<rparr>)
       (log_world (replicate 10485760 (CHR ''x'')))
     = Inr \<lparr>nodes = [(''/home/u/.claude/homunculus'', Node Directory [] 0),
                     (example_log,
                      Node Regular
                        (replicate 10485760 (CHR ''x'')
                         @ dumps example_lib
                             (JDict [(''timestamp'', JStr ''2024-01-02T03:04:05Z''),
                                     (''event'', JStr ''parse_error''),
                                     (''raw'', JStr ''not json'')])
                         @ [CHR 0x0A])
                        1704164645)],
             faulty = (\<lambda>call. False), stderr = []\<rparr>
   \<and> map_of (nodes (archive_if_needed example_proc (log_world (replicate 10485760 (CHR ''x'')))
                     example_log 10)) example_log = None
   \<and> map_of (nodes (archive_if_needed example_proc (log_world (replicate 10485760 (CHR ''x'')))
                     example_log 10)) example_archive
       = Some (Node Regular (replicate 10485760 (CHR ''x'')) 0)"
proof -
  let ?pr = "example_proc\<lparr>stdin := Some ''not json''\<rparr>"
  let ?big = "replicate 10485760 (CHR ''x'')"
  have cfg: "get_config_dir ?pr = ''/home/u/.claude/homunculus''"
    and f: "get_observations_file ?pr = example_log"
    by (simp_all add: get_config_dir_def get_observations_file_def path_join_def
        example_proc_def example_log_def)
  have mk: "mkdir_p (log_world ?big) (now ?pr) (get_config_dir ?pr) = Inr (log_world ?big)"
    by (simp add: cfg mkdir_p_def log_world_def)
  have dis: "\<not> path_exists (log_world ?big) (path_join (get_config_dir ?pr) ''disabled'')"
    by (simp add: cfg path_exists_def log_world_def path_join_def example_log_def)
  have pf: "parse_hook_input example_lib ''not json'' = ParseFailed"
    by (simp add: parse_hook_input_def example_lib_def example_loads_def scenario1_text_def
        empty_input_text_def completion_text_def)
  have ut: "utc_strftime ?pr fmt = ''2024-01-02T03:04:05Z''" and nw: "now ?pr = 1704164645"
    and nw': "now example_proc = 1704164645" for fmt
    by (simp_all add: example_proc_def)
  have par: "path_parent example_log = ''/home/u/.claude/homunculus''"
    using observations_parent [of ?pr] by (simp add: f cfg)
  have par': "path_parent ''/home/u/.claude/homunculus/observations.jsonl''
               = ''/home/u/.claude/homunculus''"
    using par by (simp add: example_log_def)
  have "observe_main example_lib ?pr (log_world ?big) =
          write_observation example_lib ?pr (log_world ?big)
             [(''timestamp'', JStr (utc_strftime ?pr ''%Y-%m-%dT%H:%M:%SZ'')),
              (''event'', JStr ''parse_error''), (''raw'', JStr (take 1000 ''not json''))]
             (get_observations_file ?pr)"
    using mk dis pf strip_not_json by (intro observe_main_parse_error) simp_all
  also have "\<dots> = Inr \<lparr>nodes = [(''/home/u/.claude/homunculus'', Node Directory [] 0),
                     (example_log,
                      Node Regular
                        (?big @ dumps example_lib
                             (JDict [(''timestamp'', JStr ''2024-01-02T03:04:05Z''),
                                     (''event'', JStr ''parse_error''),
                                     (''raw'', JStr ''not json'')])
                         @ [CHR 0x0A])
                        1704164645)],
             faulty = (\<lambda>call. False), stderr = []\<rparr>"
    unfolding f ut nw
    by (simp add: write_observation_def par' mkdir_p_def append_text_def log_world_def
        example_log_def nw')
  finally have a: "observe_main example_lib ?pr (log_world ?big) = Inr \<lparr>nodes = [(''/home/u/.claude/homunculus'', Node Directory [] 0),
                     (example_log,
                      Node Regular
                        (?big @ dumps example_lib
                             (JDict [(''timestamp'', JStr ''2024-01-02T03:04:05Z''),
                                     (''event'', JStr ''parse_error''),
                                     (''raw'', JStr ''not json'')])
                         @ [CHR 0x0A])
                        1704164645)],
             faulty = (\<lambda>call. False), stderr = []\<rparr>" .
  have n: "map_of (nodes (log_world ?big)) (get_observations_file example_proc)
             = Some (Node Regular ?big 0)"
    by (simp add: log_world_def example_paths example_log_def)
  have b: "map_of (nodes (archive_if_needed example_proc (log_world ?big) example_log 10)) example_log = None
     \<and> map_of (nodes (archive_if_needed example_proc (log_world ?big) example_log 10)) example_archive
        = Some (Node Regular ?big 0)"
    using archive_if_needed_rotates [OF n _ log_world_rotation_unhindered, of 10]
    by (simp add: example_paths st_size_def)
  show ?thesis using a b by simp
qed

section \<open>Compaction suggester\<close>
lemma py_int_50: "py_int ''50'' = Some 50"
  by (simp add: py_int_def strip_def py_isspace_def digit_val_def)

lemma tool_count_total: "\<exists>n. tool_count lib pr w = Inr n"
  by (auto simp: tool_count_def read_text_def is_ValueError_def split: sum.splits option.splits)

lemma suggest_compact_main_threshold:
  assumes "py_int (environ_get_default (environ pr) ''COMPACT_THRESHOLD'' ''50'') = Some t"
    and "tool_count lib pr w = Inr n"
    and "write_text w (now pr) (counter_file pr) (str_int n) = Inr w1"
  shows "suggest_compact_main lib pr w =
           Inr (w1\<lparr>stderr := stderr w1 @ (if n = t then [threshold_line t] else [])
                                 @ (if n > t \<and> n mod 25 = 0 then [checkpoint_line n] else [])\<rparr>)"
  using assms by (cases w1) (simp add: suggest_compact_main_def print_stderr_def Let_def)

lemma suggest_compact_main_invalid:
  assumes "py_int (environ_get_default (environ pr) ''COMPACT_THRESHOLD'' ''50'') = None"
  shows "suggest_compact_main lib pr w = Inl (ValueError, w)"
    and "suggest_compact_script lib pr w = print_stderr w (ErrorLine ''[StrategicCompact] Error: '' ValueError)"
  using assms by (simp_all add: suggest_compact_main_def suggest_compact_script_def)

lemma example_counter_file:
  "counter_file (example_proc\<lparr>environ := [(''COMPACT_THRESHOLD'', v)]\<rparr>) = example_counter"
  "counter_file example_proc = example_counter"
  by (simp_all add: counter_file_def or_else_def environ_get_def example_proc_def path_join_def
      example_counter_def)

lemma example_tool_count:
  "tool_count example_lib pr (counter_world ''49'') = Inr 50" if "counter_file pr = example_counter"
  using that
  by (simp add: tool_count_def path_exists_def counter_world_def read_text_def example_lib_def
      py_int_def strip_def py_isspace_def digit_val_def example_counter_def)

lemma str_int_50: "str_int 50 = ''50''"
  by (simp add: str_int_def str_nat.simps digit_char_def)

lemma example_write_count:
  "write_text (counter_world c) t (counter_file pr) s =
     Inr \<lparr>nodes = [(''/tmp'', Node Directory [] 0), (example_counter, Node Regular s t)],
          faulty = (\<lambda>call. False), stderr = []\<rparr>" if "counter_file pr = example_counter"
  using that by (simp add: write_text_def counter_world_def example_counter_def)

text \<open>
  C8, as stated, is false for a value that is not a valid integer: with
  \<open>COMPACT_THRESHOLD=abc\<close> the conversion raises \<open>ValueError\<close>, the call is not counted
  and the script only prints the error, where the threshold 50 would have counted the 50th
  call and printed the notice.
\<close>

theorem C8_invalid_threshold_counterexample:
  "environ_get [(''COMPACT_THRESHOLD'', ''abc'')] ''COMPACT_THRESHOLD'' = Some ''abc''
   \<and> py_int ''abc'' = None
   \<and> suggest_compact_main example_lib
         (example_proc\<lparr>environ := [(''COMPACT_THRESHOLD'', ''abc'')]\<rparr>) (counter_world ''49'')
       = Inl (ValueError, counter_world ''49'')
   \<and> suggest_compact_script example_lib
         (example_proc\<lparr>environ := [(''COMPACT_THRESHOLD'', ''abc'')]\<rparr>) (counter_world ''49'')
       = \<lparr>nodes = [(''/tmp'', Node Directory [] 0), (example_counter, Node Regular ''49'' 0)],
          faulty = (\<lambda>call. False),
          stderr = [ErrorLine ''[StrategicCompact] Error: '' ValueError]\<rparr>
   \<and> suggest_compact_script example_lib
         (example_proc\<lparr>environ := [(''COMPACT_THRESHOLD'', ''50'')]\<rparr>) (counter_world ''49'')
       = \<lparr>nodes = [(''/tmp'', Node Directory [] 0),
                    (example_counter, Node Regular ''50'' 1704164645)],
          faulty = (\<lambda>call. False),
          stderr = [Line ''[StrategicCompact] 50 tool calls reached - consider /compact if transitioning phases'']\<rparr>"
proof -
  let ?bad = "example_proc\<lparr>environ := [(''COMPACT_THRESHOLD'', ''abc'')]\<rparr>"
  let ?good = "example_proc\<lparr>environ := [(''COMPACT_THRESHOLD'', ''50'')]\<rparr>"
  have abc: "py_int ''abc'' = None"
    by (simp add: py_int_def strip_def py_isspace_def digit_val_def)
  have bad: "py_int (environ_get_default (environ ?bad) ''COMPACT_THRESHOLD'' ''50'') = None"
    by (simp add: environ_get_default_def abc)
  have good: "py_int (environ_get_default (environ ?good) ''COMPACT_THRESHOLD'' ''50'') = Some 50"
    by (simp add: environ_get_default_def py_int_50)
  have nw: "now ?good = 1704164645" by (simp add: example_proc_def)
  have g: "suggest_compact_script example_lib ?good (counter_world ''49'')
       = \<lparr>nodes = [(''/tmp'', Node Directory [] 0),
                    (example_counter, Node Regular ''50'' 1704164645)],
          faulty = (\<lambda>call. False),
          stderr = [Line ''[StrategicCompact] 50 tool calls reached - consider /compact if transitioning phases'']\<rparr>"
    unfolding suggest_compact_script_def
      suggest_compact_main_threshold [OF good example_tool_count [OF example_counter_file(1)]
        example_write_count [OF example_counter_file(1)]]
    by (simp add: threshold_line_def str_int_50 nw)
  show ?thesis
    using suggest_compact_main_invalid [OF bad, of example_lib "counter_world ''49''"] g abc
    by (simp add: environ_get_def print_stderr_def counter_world_def)
qed

text \<open>
  Claim C8 (threshold absent or not a valid integer: the default 50 is used rather than
  failing), as the code has it. With \<open>COMPACT_THRESHOLD\<close> absent the threshold is 50: the
  call is counted, the first notice is printed exactly at the 50th call and the periodic
  one at every later multiple of 25. With a value that \<open>int()\<close> rejects nothing falls
  back to 50: \<open>main\<close> raises \<open>ValueError\<close> before the counter is read or written, and
  the script prints the error line and does nothing else. With a value that \<open>int()\<close>
  accepts, that integer is the threshold.
\<close>

theorem C8_threshold:
  "(environ_get (environ pr) ''COMPACT_THRESHOLD'' = None
      \<and> tool_count lib pr w = Inr n
      \<and> write_text w (now pr) (counter_file pr) (str_int n) = Inr w1
    \<longrightarrow> suggest_compact_main lib pr w =
          Inr (w1\<lparr>stderr := stderr w1 @ (if n = 50 then [threshold_line 50] else [])
                                @ (if n > 50 \<and> n mod 25 = 0 then [checkpoint_line n] else [])\<rparr>))
   \<and> (environ_get (environ pr) ''COMPACT_THRESHOLD'' = Some v \<and> py_int v = None
    \<longrightarrow> suggest_compact_main lib pr w = Inl (ValueError, w)
        \<and> suggest_compact_script lib pr w =
            w\<lparr>stderr := stderr w @ [ErrorLine ''[StrategicCompact] Error: '' ValueError]\<rparr>)
   \<and> (environ_get (environ pr) ''COMPACT_THRESHOLD'' = Some v \<and> py_int v = Some t
      \<and> tool_count lib pr w = Inr n
      \<and> write_text w (now pr) (counter_file pr) (str_int n) = Inr w1
    \<longrightarrow> suggest_compact_main lib pr w =
          Inr (w1\<lparr>stderr := stderr w1 @ (if n = t then [threshold_line t] else [])
                                @ (if n > t \<and> n mod 25 = 0 then [checkpoint_line n] else [])\<rparr>))"
proof -
  have a: "suggest_compact_main lib pr w =
          Inr (w1\<lparr>stderr := stderr w1 @ (if n = 50 then [threshold_line 50] else [])
                                @ (if n > 50 \<and> n mod 25 = 0 then [checkpoint_line n] else [])\<rparr>)"
    if "environ_get (environ pr) ''COMPACT_THRESHOLD'' = None" "tool_count lib pr w = Inr n"
      "write_text w (now pr) (counter_file pr) (str_int n) = Inr w1"
  proof -
    have "py_int (environ_get_default (environ pr) ''COMPACT_THRESHOLD'' ''50'') = Some 50"
      using that(1) py_int_50 by (simp add: environ_get_def environ_get_default_def)
    from suggest_compact_main_threshold [OF this that(2,3)] show ?thesis .
  qed
  have b: "suggest_compact_main lib pr w = Inl (ValueError, w)
        \<and> suggest_compact_script lib pr w =
            w\<lparr>stderr := stderr w @ [ErrorLine ''[StrategicCompact] Error: '' ValueError]\<rparr>"
    if "environ_get (environ pr) ''COMPACT_THRESHOLD'' = Some v" "py_int v = None"
  proof -
    have "py_int (environ_get_default (environ pr) ''COMPACT_THRESHOLD'' ''50'') = None"
      using that by (simp add: environ_get_def environ_get_default_def)
    from suggest_compact_main_invalid [OF this] show ?thesis by (simp add: print_stderr_def)
  qed
  have c: "suggest_compact_main lib pr w =
          Inr (w1\<lparr>stderr := stderr w1 @ (if n = t then [threshold_line t] else [])
                                @ (if n > t \<and> n mod 25 = 0 then [checkpoint_line n] else [])\<rparr>)"
    if "environ_get (environ pr) ''COMPACT_THRESHOLD'' = Some v" "py_int v = Some t"
      "tool_count lib pr w = Inr n"
      "write_text w (now pr) (counter_file pr) (str_int n) = Inr w1"
  proof -
    have "py_int (environ_get_default (environ pr) ''COMPACT_THRESHOLD'' ''50'') = Some t"
      using that(1,2) by (simp add: environ_get_def environ_get_default_def)
    from suggest_compact_main_threshold [OF this that(3,4)] show ?thesis .
  qed
  show ?thesis using a b c by blast
qed

theorem C8_threshold_witness:
  "suggest_compact_main example_lib example_proc (counter_world ''49'')
     = Inr \<lparr>nodes = [(''/tmp'', Node Directory [] 0),
                     (example_counter, Node Regular ''50'' 1704164645)],
            faulty = (\<lambda>call. False),
            stderr = [Line ''[StrategicCompact] 50 tool calls reached - consider /compact if transitioning phases'']\<rparr>
   \<and> suggest_compact_script example_lib
         (example_proc\<lparr>environ := [(''COMPACT_THRESHOLD'', ''12.5'')]\<rparr>) (counter_world ''49'')
       = \<lparr>nodes = [(''/tmp'', Node Directory [] 0), (example_counter, Node Regular ''49'' 0)],
          faulty = (\<lambda>call. False),
          stderr = [ErrorLine ''[StrategicCompact] Error: '' ValueError]\<rparr>
   \<and> suggest_compact_main example_lib
         (example_proc\<lparr>environ := [(''COMPACT_THRESHOLD'', ''7'')]\<rparr>) (counter_world ''49'')
       = Inr \<lparr>nodes = [(''/tmp'', Node Directory [] 0),
                     (example_counter, Node Regular ''50'' 1704164645)],
            faulty = (\<lambda>call. False),
            stderr = [Line ''[StrategicCompact] 50 tool calls - good checkpoint for /compact if context is stale'']\<rparr>"
proof -
  let ?w = "counter_world ''49''"
  let ?w1 = "\<lparr>nodes = [(''/tmp'', Node Directory [] 0),
                     (example_counter, Node Regular ''50'' 1704164645)],
            faulty = (\<lambda>call. False), stderr = []\<rparr>"
  let ?bad = "example_proc\<lparr>environ := [(''COMPACT_THRESHOLD'', ''12.5'')]\<rparr>"
  let ?seven = "example_proc\<lparr>environ := [(''COMPACT_THRESHOLD'', ''7'')]\<rparr>"
  have e: "environ_get (environ example_proc) ''COMPACT_THRESHOLD'' = None"
      "environ_get (environ ?bad) ''COMPACT_THRESHOLD'' = Some ''12.5''"
      "environ_get (environ ?seven) ''COMPACT_THRESHOLD'' = Some ''7''"
    by (simp_all add: environ_get_def example_proc_def)
  have p: "py_int ''12.5'' = None" "py_int ''7'' = Some 7"
    by (simp_all add: py_int_def strip_def py_isspace_def digit_val_def)
  have nw: "now example_proc = 1704164645" "now ?seven = 1704164645"
    by (simp_all add: example_proc_def)
  have wr: "write_text ?w (now pr) (counter_file pr) (str_int 50) = Inr ?w1"
    if "counter_file pr = example_counter" "now pr = 1704164645" for pr
    using example_write_count [OF that(1), of "''49''" "now pr" "str_int 50"] that(2)
    by (simp add: str_int_50)
  have a: "suggest_compact_main example_lib example_proc ?w =
             Inr (?w1\<lparr>stderr := [threshold_line 50]\<rparr>)"
    using C8_threshold [of example_proc example_lib ?w 50 ?w1]
      e(1) example_tool_count [OF example_counter_file(2)] wr [OF example_counter_file(2) nw(1)]
    by simp
  have b: "suggest_compact_script example_lib ?bad ?w =
             ?w\<lparr>stderr := [ErrorLine ''[StrategicCompact] Error: '' ValueError]\<rparr>"
    using C8_threshold [where pr = ?bad and v = "''12.5''" and lib = example_lib and w = ?w] e(2) p(1)
    by (simp add: counter_world_def)
  have c: "suggest_compact_main example_lib ?seven ?w =
             Inr (?w1\<lparr>stderr := [checkpoint_line 50]\<rparr>)"
    using C8_threshold [of ?seven example_lib ?w 50 ?w1 "''7''" 7]
      e(3) p(2) example_tool_count [OF example_counter_file(1)] wr [OF example_counter_file(1) nw(2)]
    by simp
  show ?thesis using a b c
    by (simp add: threshold_line_def checkpoint_line_def str_int_50 counter_world_def)
qed

section \<open>Session evaluator\<close>

lemma count_sub_le: "sub \<noteq> [] \<Longrightarrow> count_sub sub s \<le> length s"
proof (induction sub s rule: count_sub.induct)
  case (1 sub s)
  show ?case
  proof (cases "length s < length sub")
    case True
    then show ?thesis using 1(3) by (subst count_sub.simps) simp
  next
    case False
    note nl = this
    from 1(3) have "0 < length sub" by simp
    show ?thesis
    proof (cases "prefix sub s")
      case True
      from 1(1) [OF 1(3) nl True 1(3)]
      have "count_sub sub (drop (length sub) s) \<le> length s - length sub" by simp
      moreover have "count_sub sub s = 1 + count_sub sub (drop (length sub) s)"
        using nl True 1(3) by (subst count_sub.simps) simp
      ultimately show ?thesis
        using nl \<open>0 < length sub\<close> by arith
    next
      case False
      from 1(2) [OF 1(3) nl False 1(3)]
      have "count_sub sub (tl s) \<le> length s - 1" by simp
      moreover have "count_sub sub s = count_sub sub (tl s)"
        using nl False 1(3) by (subst count_sub.simps) simp
      ultimately show ?thesis
        by arith
    qed
  qed
qed

lemma count_sub_Nil: "sub \<noteq> [] \<Longrightarrow> count_sub sub [] = 0"
  by (subst count_sub.simps) simp

lemma load_config_absent:
  "\<not> path_exists w (path_join script_dir ''config.json'') \<Longrightarrow>
     load_config lib w script_dir = Inr (JDict [])"
  by (simp add: load_config_def)

lemma count_messages_readable:
  assumes "map_of (nodes w) p = Some (Node Regular c mt)" "\<not> faulty w (SysOpenRead p)"
    and "decode lib c = Some txt"
  shows "count_messages lib w p =
           Inr (int (count_sub user_marker txt) + int (count_sub user_marker_spaced txt))"
  using assms by (simp add: count_messages_def path_exists_def read_text_def)

lemma count_messages_total: "\<exists>n. count_messages lib w p = Inr n"
  by (auto simp: count_messages_def read_text_def split: sum.splits option.splits)

lemma evaluate_session_main_counted:
  assumes "load_config lib w script_dir = Inr (JDict d)"
    and "dict_get d ''min_session_length'' (JInt 10) = JInt m"
    and "resolve_learned_skills_path lib pr (JDict d) = Inr lp"
    and "mkdir_p w (now pr) lp = Inr w1"
    and "environ_get (environ pr) ''CLAUDE_TRANSCRIPT_PATH'' = Some t" "t \<noteq> []"
    and "path_exists w1 (path_of lib t)"
    and "count_messages lib w1 (path_of lib t) = Inr n"
  shows "evaluate_session_main lib pr script_dir w =
           Inr (w1\<lparr>stderr := stderr w1 @ (if m \<le> n then [evaluate_line n, save_line lp]
                                            else [too_short_line n])\<rparr>)"
  using assms
  by (simp add: evaluate_session_main_def config_get_def environ_get_def
      environ_get_default_def int_lt_def print_stderr_def Let_def not_less)

lemma example_counts:
  "count_sub user_marker (example_transcript 7 5) = 7"
  "count_sub user_marker_spaced (example_transcript 7 5) = 5"
  "count_sub user_marker (example_transcript 2 1) = 2"
  "count_sub user_marker_spaced (example_transcript 2 1) = 1"
  by code_simp+

lemma example_sums:
  "12 = int (count_sub user_marker (example_transcript 7 5))
        + int (count_sub user_marker_spaced (example_transcript 7 5))"
  "3 = int (count_sub user_marker (example_transcript 2 1))
       + int (count_sub user_marker_spaced (example_transcript 2 1))"
  unfolding example_counts by simp_all

lemma str_int_examples: "str_int 12 = ''12''" "str_int 3 = ''3''"
  by (simp_all add: str_int_def str_nat.simps digit_char_def)

text \<open>
  Claim C4 (the evaluation gate). For a transcript that exists and can be read, the
  count is the number of occurrences of \<open>"type":"user"\<close> plus that of
  \<open>"type": "user"\<close> in its text. With an integer \<open>min_session_length\<close> of \<open>m\<close>
  (10 when the configuration does not set it), \<open>main\<close> prints the evaluation line and
  the line naming the learned-skills directory exactly when the count is at least \<open>m\<close>,
  and otherwise only the line saying that the session is too short. The hypotheses say
  that the configuration is a dict, that the learned-skills directory could be made and
  that \<open>CLAUDE_TRANSCRIPT_PATH\<close> names the transcript.
\<close>

theorem C4_evaluation_gate:
  assumes "load_config lib w script_dir = Inr (JDict d)"
    and "dict_get d ''min_session_length'' (JInt 10) = JInt m"
    and "resolve_learned_skills_path lib pr (JDict d) = Inr lp"
    and "mkdir_p w (now pr) lp = Inr w1"
    and "environ_get (environ pr) ''CLAUDE_TRANSCRIPT_PATH'' = Some t" "t \<noteq> []"
    and "map_of (nodes w1) (path_of lib t) = Some (Node Regular c mt)"
    and "\<not> faulty w1 (SysOpenRead (path_of lib t))" "decode lib c = Some txt"
    and "n = int (count_sub user_marker txt) + int (count_sub user_marker_spaced txt)"
  shows "evaluate_session_main lib pr script_dir w =
           Inr (w1\<lparr>stderr := stderr w1 @ (if n \<ge> m then [evaluate_line n, save_line lp]
                                            else [too_short_line n])\<rparr>)
         \<and> (map_of d ''min_session_length'' = None \<longrightarrow> m = 10)"
proof -
  have ex: "path_exists w1 (path_of lib t)"
    using assms(7) by (simp add: path_exists_def)
  have cnt: "count_messages lib w1 (path_of lib t) = Inr n"
    using count_messages_readable [OF assms(7,8,9)] assms(10) by simp
  have a: "evaluate_session_main lib pr script_dir w =
           Inr (w1\<lparr>stderr := stderr w1 @ (if n \<ge> m then [evaluate_line n, save_line lp]
                                            else [too_short_line n])\<rparr>)"
    by (rule evaluate_session_main_counted [OF assms(1,2,3,4,5,6) ex cnt])
  have b: "map_of d ''min_session_length'' = None \<longrightarrow> m = 10"
    using assms(2) by (auto simp: dict_get_def)
  show ?thesis using a b by (rule conjI)
qed

theorem C4_evaluation_gate_witness:
  "evaluate_session_main example_lib transcript_proc ''/opt/hooks''
       (transcript_world (example_transcript 7 5))
     = Inr \<lparr>nodes = [(''/work/t.jsonl'', Node Regular (example_transcript 7 5) 0),
                     (''/home/u/.claude/skills/learned'', Node Directory [] 1704164645)],
            faulty = (\<lambda>call. False),
            stderr = [Line ''[ContinuousLearning] Session has 12 messages - evaluate for extractable patterns'',
                      Line ''[ContinuousLearning] Save learned skills to: /home/u/.claude/skills/learned'']\<rparr>
   \<and> evaluate_session_main example_lib transcript_proc ''/opt/hooks''
       (transcript_world (example_transcript 2 1))
     = Inr \<lparr>nodes = [(''/work/t.jsonl'', Node Regular (example_transcript 2 1) 0),
                     (''/home/u/.claude/skills/learned'', Node Directory [] 1704164645)],
            faulty = (\<lambda>call. False),
            stderr = [Line ''[ContinuousLearning] Session too short (3 messages), skipping'']\<rparr>"
proof -
  let ?lp = "''/home/u/.claude/skills/learned''"
  let ?w1 = "\<lambda>c. \<lparr>nodes = [(''/work/t.jsonl'', Node Regular c 0),
                           (?lp, Node Directory [] 1704164645)],
                  faulty = (\<lambda>call. False), stderr = []\<rparr>"
  have cfg: "load_config example_lib (transcript_world c) ''/opt/hooks'' = Inr (JDict [])" for c
    by (rule load_config_absent) (simp add: path_exists_def transcript_world_def path_join_def)
  have m: "dict_get [] ''min_session_length'' (JInt 10) = JInt 10"
    by (simp add: dict_get_def)
  have lp: "resolve_learned_skills_path example_lib transcript_proc (JDict []) = Inr ?lp"
    by (simp add: resolve_learned_skills_path_def config_get_def dict_get_def json_truthy_def
        get_learned_skills_path_def path_join_def transcript_proc_def example_proc_def)
  have mk: "mkdir_p (transcript_world c) (now transcript_proc) ?lp = Inr (?w1 c)" for c
    by (simp add: mkdir_p_def transcript_world_def transcript_proc_def example_proc_def)
  have env: "environ_get (environ transcript_proc) ''CLAUDE_TRANSCRIPT_PATH'' = Some ''/work/t.jsonl''"
    by (simp add: environ_get_def transcript_proc_def)
  have t: "map_of (nodes (?w1 c)) (path_of example_lib ''/work/t.jsonl'') = Some (Node Regular c 0)"
      "\<not> faulty (?w1 c) (SysOpenRead (path_of example_lib ''/work/t.jsonl''))"
      "decode example_lib c = Some c" for c
    by (simp_all add: example_lib_def)
  have a: "evaluate_session_main example_lib transcript_proc ''/opt/hooks''
             (transcript_world (example_transcript 7 5))
           = Inr (?w1 (example_transcript 7 5)\<lparr>stderr := [evaluate_line 12, save_line ?lp]\<rparr>)"
    using C4_evaluation_gate [OF cfg m lp mk env _ t example_sums(1)]
    by simp
  have b: "evaluate_session_main example_lib transcript_proc ''/opt/hooks''
             (transcript_world (example_transcript 2 1))
           = Inr (?w1 (example_transcript 2 1)\<lparr>stderr := [too_short_line 3]\<rparr>)"
    using C4_evaluation_gate [OF cfg m lp mk env _ t example_sums(2)]
    by simp
  show ?thesis using a b
    by (simp add: evaluate_line_def save_line_def too_short_line_def str_int_examples)
qed

section \<open>File index\<close>

lemma search_entries_sound:
  assumes "search_entries regex t ma recursive d es results = (x, rs)"
    and "\<forall>f \<in> set results. \<not> too_old t ma (f_mtime f)"
  shows "\<forall>f \<in> set rs. \<not> too_old t ma (f_mtime f)"
  using assms
proof (induction regex t ma recursive d es results arbitrary: x rs
    rule: search_entries.induct)
  case (3 regex t ma recursive current_dir name sub es results)
  show ?case
  proof (cases recursive)
    case False
    with 3 show ?thesis by simp
  next
    case True
    obtain y r where sub: "search_entries regex t ma recursive (path_join current_dir name) sub results = (y, r)"
      by (cases "search_entries regex t ma recursive (path_join current_dir name) sub results")
    from "3.IH"(1) [OF True sub "3.prems"(2)]
    have r: "\<forall>f \<in> set r. \<not> too_old t ma (f_mtime f)" .
    show ?thesis
    proof (cases y)
      case None
      with "3.IH"(2) [OF True sub [symmetric] None _ r] "3.prems"(1) True sub
      show ?thesis by simp
    next
      case (Some e)
      show ?thesis
      proof (cases "e = PermissionError")
        case True
        with "3.IH"(3) [OF \<open>recursive\<close> sub [symmetric] Some True _ r]
          "3.prems"(1) \<open>recursive\<close> sub Some
        show ?thesis by simp
      next
        case False
        with "3.prems"(1) \<open>recursive\<close> sub Some r show ?thesis by simp
      qed
    qed
  qed
qed (auto split: if_splits)

lemma search_entries_clean:
  assumes "list_all (clean recursive) es"
  shows "\<exists>rs. search_entries regex t ma recursive d es results = (None, results @ rs)
          \<and> (\<forall>name mt. File name mt \<in> set es \<and> regex name \<and> \<not> too_old t ma mt
                \<longrightarrow> Found (path_join d name) mt \<in> set rs)"
  using assms
proof (induction regex t ma recursive d es results rule: search_entries.induct)
  case (1 regex t ma recursive current_dir results)
  show ?case by simp
next
  case (2 regex t ma recursive current_dir name st_mtime es results)
  from "2.prems" have cl: "list_all (clean recursive) es" by simp
  show ?case
  proof (cases "regex name")
    case False
    from "2.IH"(3) [OF False cl] obtain rs where
      rs: "search_entries regex t ma recursive current_dir es results = (None, results @ rs)"
        "\<forall>name mt. File name mt \<in> set es \<and> regex name \<and> \<not> too_old t ma mt
           \<longrightarrow> Found (path_join current_dir name) mt \<in> set rs"
      by blast
    show ?thesis
      using False rs by (intro exI [of _ rs]) auto
  next
    case True
    show ?thesis
    proof (cases "too_old t ma st_mtime")
      case old: True
      from "2.IH"(1) [OF True old cl] obtain rs where
        rs: "search_entries regex t ma recursive current_dir es results = (None, results @ rs)"
          "\<forall>name mt. File name mt \<in> set es \<and> regex name \<and> \<not> too_old t ma mt
             \<longrightarrow> Found (path_join current_dir name) mt \<in> set rs"
        by blast
      show ?thesis
        using True old rs by (intro exI [of _ rs]) auto
    next
      case young: False
      from "2.IH"(2) [OF True young cl] obtain rs where
        rs: "search_entries regex t ma recursive current_dir es
               (results @ [Found (path_join current_dir name) st_mtime])
             = (None, (results @ [Found (path_join current_dir name) st_mtime]) @ rs)"
          "\<forall>name mt. File name mt \<in> set es \<and> regex name \<and> \<not> too_old t ma mt
             \<longrightarrow> Found (path_join current_dir name) mt \<in> set rs"
        by blast
      show ?thesis
        using True young rs
        by (intro exI [of _ "Found (path_join current_dir name) st_mtime # rs"]) auto
    qed
  qed
next
  case (3 regex t ma recursive current_dir name sub es results)
  from "3.prems" have cl: "list_all (clean recursive) es"
    and cls: "recursive \<Longrightarrow> list_all (clean recursive) sub" by simp_all
  show ?case
  proof (cases recursive)
    case False
    from "3.IH"(4) [OF False cl] obtain rs where
      rs: "search_entries regex t ma recursive current_dir es results = (None, results @ rs)"
        "\<forall>name mt. File name mt \<in> set es \<and> regex name \<and> \<not> too_old t ma mt
           \<longrightarrow> Found (path_join current_dir name) mt \<in> set rs"
      by blast
    show ?thesis
      using False rs by (intro exI [of _ rs]) auto
  next
    case True
    from "3.IH"(1) [OF True cls [OF True]] obtain r1 where
      r1: "search_entries regex t ma recursive (path_join current_dir name) sub results
             = (None, results @ r1)"
      by blast
    from "3.IH"(2) [OF True r1 [symmetric] refl cl] obtain rs where
      rs: "search_entries regex t ma recursive current_dir es (results @ r1)
             = (None, (results @ r1) @ rs)"
        "\<forall>name mt. File name mt \<in> set es \<and> regex name \<and> \<not> too_old t ma mt
           \<longrightarrow> Found (path_join current_dir name) mt \<in> set rs"
      by blast
    show ?thesis
      using True r1 rs by (intro exI [of _ "r1 @ rs"]) auto
  qed
next
  case (4 regex t ma recursive current_dir name es results)
  from "4.prems" have cl: "list_all (clean recursive) es" by simp
  from "4.IH" [OF cl] obtain rs where
    rs: "search_entries regex t ma recursive current_dir es results = (None, results @ rs)"
      "\<forall>name mt. File name mt \<in> set es \<and> regex name \<and> \<not> too_old t ma mt
         \<longrightarrow> Found (path_join current_dir name) mt \<in> set rs"
    by blast
  show ?case
    using rs by (intro exI [of _ rs]) auto
next
  case (5 regex t ma recursive current_dir name es results)
  from "5.prems" have cl: "list_all (clean recursive) es" and nr: "\<not> recursive" by auto
  from "5.IH" [OF nr cl] obtain rs where
    rs: "search_entries regex t ma recursive current_dir es results = (None, results @ rs)"
      "\<forall>name mt. File name mt \<in> set es \<and> regex name \<and> \<not> too_old t ma mt
         \<longrightarrow> Found (path_join current_dir name) mt \<in> set rs"
    by blast
  show ?case
    using nr rs by (intro exI [of _ rs]) auto
next
  case (6 regex t ma recursive current_dir name es results)
  from "6.prems" have cl: "list_all (clean recursive) es" by simp
  from "6.IH" [OF cl] obtain rs where
    rs: "search_entries regex t ma recursive current_dir es results = (None, results @ rs)"
      "\<forall>name mt. File name mt \<in> set es \<and> regex name \<and> \<not> too_old t ma mt
         \<longrightarrow> Found (path_join current_dir name) mt \<in> set rs"
    by blast
  show ?case
    using rs by (intro exI [of _ rs]) auto
next
  case (7 regex t ma recursive current_dir name es results)
  then show ?case by simp
next
  case (8 regex t ma recursive current_dir name es results)
  then show ?case by simp
qed

lemma find_files_absent: "find_files lib pr None directory pattern max_age_days recursive = Inr []"
  by (simp add: find_files_def)

text \<open>
  Claim C5 (the age limit of \<open>find_files\<close>). For a directory whose scan no exception
  cuts short and a pattern that compiles, \<open>find_files\<close> with \<open>max_age_days\<close> returns a
  list in which every file has an age, in days, of at most \<open>max_age_days\<close>, and a file
  of the directory whose name matches is in the list exactly when its age is at most
  \<open>max_age_days\<close>: it is left out when the age is strictly greater and kept when the two
  are equal.
\<close>

theorem C5_max_age:
  assumes "re_compile lib (glob_to_regex pattern) = Some regex"
    and "list_all (clean recursive) es"
  shows "\<exists>rs. find_files lib pr (Some (Dir n es)) directory pattern (Some max_age_days) recursive
                 = Inr rs
           \<and> (\<forall>f \<in> set rs. (now pr - f_mtime f) / 86400 \<le> max_age_days)
           \<and> (\<forall>name mt. File name mt \<in> set es \<and> regex name \<longrightarrow>
                 (Found (path_join directory name) mt \<in> set rs
                    \<longleftrightarrow> (now pr - mt) / 86400 \<le> max_age_days))"
proof -
  let ?ma = "Some max_age_days"
  from search_entries_clean [OF assms(2), of regex "now pr" ?ma directory "[]"]
  obtain rs where rs: "search_entries regex (now pr) ?ma recursive directory es [] = (None, rs)"
    and complete: "\<forall>name mt. File name mt \<in> set es \<and> regex name \<and> \<not> too_old (now pr) ?ma mt
                     \<longrightarrow> Found (path_join directory name) mt \<in> set rs"
    by auto
  from search_entries_sound [OF rs] have sound: "\<forall>f \<in> set rs. \<not> too_old (now pr) ?ma (f_mtime f)"
    by simp
  have old: "too_old (now pr) ?ma mt \<longleftrightarrow> \<not> (now pr - mt) / 86400 \<le> max_age_days" for mt
    by (simp add: too_old_def not_le)
  have ff: "find_files lib pr (Some (Dir n es)) directory pattern ?ma recursive
              = Inr (sort_key (\<lambda>x. - f_mtime x) rs)"
    using assms(1) rs by (simp add: find_files_def search_dir_def)
  have a: "\<forall>f \<in> set (sort_key (\<lambda>x. - f_mtime x) rs). (now pr - f_mtime f) / 86400 \<le> max_age_days"
    using sound by (simp add: old)
  have b: "\<forall>name mt. File name mt \<in> set es \<and> regex name \<longrightarrow>
             (Found (path_join directory name) mt \<in> set (sort_key (\<lambda>x. - f_mtime x) rs)
                \<longleftrightarrow> (now pr - mt) / 86400 \<le> max_age_days)"
  proof (intro allI impI)
    fix name mt
    assume h: "File name mt \<in> set es \<and> regex name"
    show "Found (path_join directory name) mt \<in> set (sort_key (\<lambda>x. - f_mtime x) rs)
            \<longleftrightarrow> (now pr - mt) / 86400 \<le> max_age_days"
    proof
      assume "Found (path_join directory name) mt \<in> set (sort_key (\<lambda>x. - f_mtime x) rs)"
      then have "Found (path_join directory name) mt \<in> set rs" by simp
      with sound have "\<not> too_old (now pr) ?ma (f_mtime (Found (path_join directory name) mt))"
        by blast
      then show "(now pr - mt) / 86400 \<le> max_age_days" by (simp add: old)
    next
      assume "(now pr - mt) / 86400 \<le> max_age_days"
      then have "\<not> too_old (now pr) ?ma mt" by (simp add: old)
      with complete h have "Found (path_join directory name) mt \<in> set rs" by blast
      then show "Found (path_join directory name) mt \<in> set (sort_key (\<lambda>x. - f_mtime x) rs)"
        by simp
    qed
  qed
  show ?thesis
    using ff a b by blast
qed

lemma find_files_scenario:
  "find_files example_lib example_proc (Some (Dir ''sessions'' marker_files)) example_sessions
     ''*-session.tmp'' (Some 7) False
   = Inr [Found ''/home/u/.claude/sessions/a-session.tmp'' 1704078245]"
  by (simp add: find_files_def search_dir_def example_lib_def marker_files_def aged_def
      too_old_def example_proc_def example_sessions_def path_join_def suffix_to_prefix)

theorem C5_max_age_witness:
  "(\<exists>rs. find_files example_lib example_proc
            (Some (Dir ''sessions'' (aged ''d-session.tmp'' 7 # marker_files))) example_sessions
            ''*-session.tmp'' (Some 7) False = Inr rs
         \<and> Found (path_join example_sessions ''d-session.tmp'') (1704164645 - 7 * 86400) \<in> set rs
         \<and> Found (path_join example_sessions ''a-session.tmp'') (1704164645 - 1 * 86400) \<in> set rs
         \<and> Found (path_join example_sessions ''b-session.tmp'') (1704164645 - 8 * 86400) \<notin> set rs
         \<and> Found (path_join example_sessions ''c-session.tmp'') (1704164645 - 30 * 86400) \<notin> set rs)"
proof -
  let ?es = "aged ''d-session.tmp'' 7 # marker_files"
  have re: "re_compile example_lib (glob_to_regex ''*-session.tmp'') = Some (suffix ''-session.tmp'')"
    by (simp add: example_lib_def)
  have cl: "list_all (clean False) ?es"
    by (simp add: marker_files_def aged_def)
  have nw: "now example_proc = 1704164645"
    by (simp add: example_proc_def)
  have files: "File ''d-session.tmp'' (1704164645 - 7 * 86400) \<in> set ?es"
    "File ''a-session.tmp'' (1704164645 - 1 * 86400) \<in> set ?es"
    "File ''b-session.tmp'' (1704164645 - 8 * 86400) \<in> set ?es"
    "File ''c-session.tmp'' (1704164645 - 30 * 86400) \<in> set ?es"
    by (simp_all add: marker_files_def aged_def)
  have sf: "suffix ''-session.tmp'' ''d-session.tmp''" "suffix ''-session.tmp'' ''a-session.tmp''"
    "suffix ''-session.tmp'' ''b-session.tmp''" "suffix ''-session.tmp'' ''c-session.tmp''"
    by (simp_all add: suffix_to_prefix)
  from C5_max_age [OF re cl, of example_proc "''sessions''" example_sessions 7]
  obtain rs where rs: "find_files example_lib example_proc (Some (Dir ''sessions'' ?es))
        example_sessions ''*-session.tmp'' (Some 7) False = Inr rs"
    and iff: "\<And>name mt. File name mt \<in> set ?es \<Longrightarrow> suffix ''-session.tmp'' name \<Longrightarrow>
                 (Found (path_join example_sessions name) mt \<in> set rs
                    \<longleftrightarrow> (now example_proc - mt) / 86400 \<le> 7)"
    by blast
  show ?thesis
    using rs iff [OF files(1) sf(1)] iff [OF files(2) sf(2)] iff [OF files(3) sf(3)]
      iff [OF files(4) sf(4)]
    by (intro exI [of _ rs]) (simp add: nw)
qed

lemma cutoff_agrees:
  "st_mtime \<ge> t - of_int (m * 24 * 60 * 60) \<longleftrightarrow> \<not> too_old t (Some (of_int m)) st_mtime"
  by (simp add: too_old_def not_less field_simps)

lemma find_recent_files_scenario:
  "find_recent_files example_lib example_proc
     (Some (Dir ''sessions'' (aged ''d-session.tmp'' 7 # marker_files))) example_sessions
     ''*-session.tmp'' 7
   = Inr [''/home/u/.claude/sessions/a-session.tmp'', ''/home/u/.claude/sessions/d-session.tmp'']"
  by (simp add: find_recent_files_def example_lib_def marker_files_def aged_def
      example_proc_def example_sessions_def path_join_def suffix_to_prefix)

section \<open>Session end\<close>

lemma session_paths:
  "session_file pr \<noteq> metadata_file pr"
  "session_file pr \<noteq> get_sessions_dir pr"
  "metadata_file pr \<noteq> get_sessions_dir pr"
  by (simp_all add: session_file_def metadata_file_def path_join_neq_dir)

lemma session_end_main_unhindered:
  assumes u: "session_end_unhindered pr w"
  shows "\<exists>w3. session_end_main lib pr w =
                 Inr (print_stderr w3
                        (Line (''[SessionEnd] Session state saved to '' @ get_sessions_dir pr)))
           \<and> stderr w3 = stderr w
           \<and> map_of (nodes w3) (session_file pr)
               = (case map_of (nodes w) (session_file pr) of
                    None \<Rightarrow> None
                  | Some n \<Rightarrow> Some (Node Regular (content n @ end_marker pr) (now pr)))
           \<and> map_of (nodes w3) (metadata_file pr)
               = Some (Node Regular (dumps_indent lib (session_metadata pr)) (now pr))"
proof -
  let ?sd = "get_sessions_dir pr" and ?sf = "session_file pr" and ?mf = "metadata_file pr"
  from u obtain w1 where w1: "mkdir_p w (now pr) ?sd = Inr w1" "faulty w1 = faulty w"
      "stderr w1 = stderr w" "\<forall>p. p \<noteq> ?sd \<longrightarrow> map_of (nodes w1) p = map_of (nodes w) p"
    using mkdir_p_ok [of w ?sd "now pr"] by (auto simp: session_end_unhindered_def)
  have sf1: "map_of (nodes w1) ?sf = map_of (nodes w) ?sf"
    and mf1: "map_of (nodes w1) ?mf = map_of (nodes w) ?mf"
    using w1(4) session_paths(2,3) [of pr] by simp_all
  have "\<exists>w2. (if path_exists w1 ?sf then append_text w1 (now pr) ?sf (end_marker pr) else Inr w1)
               = Inr w2
            \<and> faulty w2 = faulty w \<and> stderr w2 = stderr w
            \<and> map_of (nodes w2) ?sf
                = (case map_of (nodes w) ?sf of
                     None \<Rightarrow> None
                   | Some n \<Rightarrow> Some (Node Regular (content n @ end_marker pr) (now pr)))
            \<and> map_of (nodes w2) ?mf = map_of (nodes w) ?mf"
  proof (cases "map_of (nodes w) ?sf")
    case None
    then show ?thesis
      using w1 sf1 mf1 by (simp add: path_exists_def)
  next
    case (Some n)
    have nf: "\<not> faulty w1 (SysOpenAppend ?sf)"
      using u w1(2) by (simp add: session_end_unhindered_def)
    have reg: "case map_of (nodes w1) ?sf of None \<Rightarrow> True | Some d \<Rightarrow> kind d = Regular"
      using u sf1 by (simp add: session_end_unhindered_def)
    from append_text_ok [OF nf reg, of "now pr" "end_marker pr"] obtain w2 where
      w2: "append_text w1 (now pr) ?sf (end_marker pr) = Inr w2" "faulty w2 = faulty w1"
        "stderr w2 = stderr w1"
        "map_of (nodes w2) =
           (map_of (nodes w1))
             (?sf \<mapsto> Node Regular ((case map_of (nodes w1) ?sf of None \<Rightarrow> [] | Some n \<Rightarrow> content n)
                                     @ end_marker pr) (now pr))"
      by blast
    show ?thesis
      using w2 w1(2,3) sf1 mf1 Some session_paths(1) [of pr]
      by (intro exI [of _ w2]) (simp add: path_exists_def)
  qed
  then obtain w2 where w2:
      "(if path_exists w1 ?sf then append_text w1 (now pr) ?sf (end_marker pr) else Inr w1) = Inr w2"
      "faulty w2 = faulty w" "stderr w2 = stderr w"
      "map_of (nodes w2) ?sf
         = (case map_of (nodes w) ?sf of
              None \<Rightarrow> None
            | Some n \<Rightarrow> Some (Node Regular (content n @ end_marker pr) (now pr)))"
      "map_of (nodes w2) ?mf = map_of (nodes w) ?mf"
    by blast
  have nf: "\<not> faulty w2 (SysOpenWrite ?mf)"
    using u w2(2) by (simp add: session_end_unhindered_def)
  have reg: "case map_of (nodes w2) ?mf of None \<Rightarrow> True | Some d \<Rightarrow> kind d = Regular"
    using u w2(5) by (simp add: session_end_unhindered_def)
  from write_text_ok [OF nf reg, of "now pr" "dumps_indent lib (session_metadata pr)"]
  obtain w3 where w3:
      "write_text w2 (now pr) ?mf (dumps_indent lib (session_metadata pr)) = Inr w3"
      "stderr w3 = stderr w2"
      "map_of (nodes w3) =
         (map_of (nodes w2))(?mf \<mapsto> Node Regular (dumps_indent lib (session_metadata pr)) (now pr))"
    by blast
  have main: "session_end_main lib pr w =
                Inr (print_stderr w3
                       (Line (''[SessionEnd] Session state saved to '' @ get_sessions_dir pr)))"
    using w1(1) w2(1) w3(1) by (simp add: session_end_main_def)
  show ?thesis
    using main w3(2,3) w2(3,4) session_paths(1) [of pr]
    by (intro exI [of _ w3]) simp
qed

text \<open>
  Claim C6 (session end). When no system call of the hook fails, the marker file of the
  current day and session is absent afterwards if it was absent before, and holds its
  former content followed by the end marker if it was there; the metadata file holds
  the record of \<open>session_id\<close>, \<open>ended_at\<close> and \<open>cwd\<close> in both cases, whatever it held
  before; and the hook reports that the state was saved.
\<close>

theorem C6_session_end:
  assumes "session_end_unhindered pr w"
  shows "(map_of (nodes w) (session_file pr) = None
            \<longrightarrow> map_of (nodes (session_end_script lib pr w)) (session_file pr) = None)
       \<and> (\<forall>n. map_of (nodes w) (session_file pr) = Some n
            \<longrightarrow> map_of (nodes (session_end_script lib pr w)) (session_file pr)
                  = Some (Node Regular (content n @ end_marker pr) (now pr)))
       \<and> map_of (nodes (session_end_script lib pr w)) (metadata_file pr)
           = Some (Node Regular
                     (dumps_indent lib
                        (JDict [(''session_id'', JStr (session_end_get_session_id_short (environ pr))),
                                (''ended_at'', JStr (isoformat pr)),
                                (''cwd'', JStr (cwd pr))]))
                     (now pr))
       \<and> stderr (session_end_script lib pr w)
           = stderr w @ [Line (''[SessionEnd] Session state saved to '' @ get_sessions_dir pr)]"
proof -
  from session_end_main_unhindered [OF assms, of lib] obtain w3 where
    w3: "session_end_main lib pr w =
           Inr (print_stderr w3
                  (Line (''[SessionEnd] Session state saved to '' @ get_sessions_dir pr)))"
      "stderr w3 = stderr w"
      "map_of (nodes w3) (session_file pr)
         = (case map_of (nodes w) (session_file pr) of
              None \<Rightarrow> None
            | Some n \<Rightarrow> Some (Node Regular (content n @ end_marker pr) (now pr)))"
      "map_of (nodes w3) (metadata_file pr)
         = Some (Node Regular (dumps_indent lib (session_metadata pr)) (now pr))"
    by blast
  have s: "session_end_script lib pr w =
             print_stderr w3 (Line (''[SessionEnd] Session state saved to '' @ get_sessions_dir pr))"
    using w3(1) by (simp add: session_end_script_def)
  show ?thesis
    unfolding s using w3(2,3,4) by (simp add: print_stderr_def session_metadata_def)
qed

lemma example_session_paths:
  "get_sessions_dir example_proc = ''/home/u/.claude/sessions''"
  "session_file example_proc = current_marker"
  "metadata_file example_proc = example_metadata"
  by (simp_all add: get_sessions_dir_def session_file_def metadata_file_def path_join_def
      example_proc_def current_marker_def example_metadata_def
      session_end_get_session_id_short_def environ_get_default_def)

theorem C6_session_end_witness:
  "map_of (nodes (session_end_script example_lib example_proc
                    (sessions_world [(current_marker, Node Regular ''notes'' 5),
                                     (example_metadata, Node Regular ''old'' 1)])))
      current_marker
     = Some (Node Regular
               (''notes'' @ [CHR 0x0A] @ ''---'' @ [CHR 0x0A] @ ''**[Session ended at 03:04]**''
                @ [CHR 0x0A])
               1704164645)
   \<and> map_of (nodes (session_end_script example_lib example_proc
                      (sessions_world [(current_marker, Node Regular ''notes'' 5),
                                       (example_metadata, Node Regular ''old'' 1)])))
        example_metadata
       = Some (Node Regular
                 ''{session_id=default;ended_at=2024-01-02T03:04:05.000000;cwd=/work;}''
                 1704164645)
   \<and> map_of (nodes (session_end_script example_lib example_proc (sessions_world [])))
        current_marker = None
   \<and> map_of (nodes (session_end_script example_lib example_proc (sessions_world [])))
        example_metadata
       = Some (Node Regular
                 ''{session_id=default;ended_at=2024-01-02T03:04:05.000000;cwd=/work;}''
                 1704164645)"
proof -
  let ?w = "sessions_world [(current_marker, Node Regular ''notes'' 5),
                            (example_metadata, Node Regular ''old'' 1)]"
  have ne: "current_marker \<noteq> example_metadata" "current_marker \<noteq> ''/home/u/.claude/sessions''"
    "example_metadata \<noteq> ''/home/u/.claude/sessions''"
    by (simp_all add: current_marker_def example_metadata_def)
  have u1: "session_end_unhindered example_proc ?w"
    using ne by (simp add: session_end_unhindered_def example_session_paths sessions_world_def)
  have u2: "session_end_unhindered example_proc (sessions_world [])"
    using ne by (simp add: session_end_unhindered_def example_session_paths sessions_world_def)
  have m1: "map_of (nodes ?w) current_marker = Some (Node Regular ''notes'' 5)"
    using ne by (simp add: sessions_world_def)
  have m2: "map_of (nodes (sessions_world [])) current_marker = None"
    using ne by (simp add: sessions_world_def)
  have vals: "end_marker example_proc
                = [CHR 0x0A] @ ''---'' @ [CHR 0x0A] @ ''**[Session ended at 03:04]**'' @ [CHR 0x0A]"
    "dumps_indent example_lib
       (JDict [(''session_id'', JStr (session_end_get_session_id_short (environ example_proc))),
               (''ended_at'', JStr (isoformat example_proc)), (''cwd'', JStr (cwd example_proc))])
     = ''{session_id=default;ended_at=2024-01-02T03:04:05.000000;cwd=/work;}''"
    "now example_proc = 1704164645"
    by (simp_all add: end_marker_def example_proc_def example_lib_def example_dumps_def
        session_end_get_session_id_short_def environ_get_default_def)
  show ?thesis
    using C6_session_end [OF u1, of example_lib] C6_session_end [OF u2, of example_lib] m1 m2
    unfolding example_session_paths vals
    by simp
qed

text \<open>
  The order of the two writes shows when a call fails: an error of the append (here the
  marker's path is taken by a directory) ends \<open>main\<close> before the metadata is written.
\<close>

lemma session_end_append_fails:
  "session_end_script example_lib example_proc
     (sessions_world [(current_marker, Node Directory [] 5)])
   = \<lparr>nodes = [(''/home/u/.claude/sessions'', Node Directory [] 0),
                (current_marker, Node Directory [] 5)],
      faulty = (\<lambda>call. False),
      stderr = [ErrorLine ''[SessionEnd] Error: '' OSError]\<rparr>"
  unfolding session_end_script_def session_end_main_def example_session_paths
  by (simp add: sessions_world_def mkdir_p_def path_exists_def append_text_def print_stderr_def
      current_marker_def)

section \<open>Pre-compaction\<close>

lemma example_marker_names:
  "path_parent current_marker = ''/home/u/.claude/sessions''"
  "path_parent other_marker = ''/home/u/.claude/sessions''"
  "path_parent ''/home/u/.claude/sessions/compaction-log.txt'' = ''/home/u/.claude/sessions''"
  "path_parent ''/home/u/.claude/sessions'' = ''/home/u/.claude''"
  "path_name current_marker = ''2024-01-02-default-session.tmp''"
  "path_name other_marker = ''2023-12-30-abcd1234-session.tmp''"
  "path_name ''/home/u/.claude/sessions/compaction-log.txt'' = ''compaction-log.txt''"
  by (simp_all add: path_parent_def path_name_def current_marker_def other_marker_def)

lemma example_compaction_paths:
  "compaction_log example_proc = ''/home/u/.claude/sessions/compaction-log.txt''"
  "compaction_line example_proc = ''[2024-01-02 03:04:05] Context compaction triggered'' @ [CHR 0x0A]"
  "compaction_note example_proc =
     [CHR 0x0A] @ ''---'' @ [CHR 0x0A]
     @ ''**[Compaction occurred at 03:04]** - Context was summarized'' @ [CHR 0x0A]"
  "now example_proc = 1704164645"
  by (simp_all add: compaction_log_def compaction_line_def compaction_note_def
      get_sessions_dir_def path_join_def example_proc_def)

lemma example_markers_distinct:
  "current_marker \<noteq> other_marker"
  "current_marker \<noteq> ''/home/u/.claude/sessions/compaction-log.txt''"
  "other_marker \<noteq> ''/home/u/.claude/sessions/compaction-log.txt''"
  "current_marker \<noteq> ''/home/u/.claude/sessions''"
  "other_marker \<noteq> ''/home/u/.claude/sessions''"
  by (simp_all add: current_marker_def other_marker_def)

lemma example_match:
  "fnmatch example_lib pat name = suffix ''-session.tmp'' name"
  by (simp add: example_lib_def)

text \<open>
  C7, as stated, is false in its second half: the note does not go to the marker of the
  current day and session. Here that marker exists, and the note goes to the marker of an
  earlier day and another session, which was modified later; and when the directory holds
  no marker, none is written.
\<close>

theorem C7_active_session_counterexample:
  "session_file example_proc = current_marker
   \<and> pre_compact_main example_lib example_proc
         (sessions_world [(current_marker, Node Regular ''mine'' 100),
                          (other_marker, Node Regular ''theirs'' 200)])
       = Inr \<lparr>nodes = [(''/home/u/.claude/sessions'', Node Directory [] 0),
                       (current_marker, Node Regular ''mine'' 100),
                       (other_marker,
                        Node Regular
                          (''theirs'' @ [CHR 0x0A] @ ''---'' @ [CHR 0x0A]
                           @ ''**[Compaction occurred at 03:04]** - Context was summarized''
                           @ [CHR 0x0A])
                          1704164645),
                       (''/home/u/.claude/sessions/compaction-log.txt'',
                        Node Regular
                          (''[2024-01-02 03:04:05] Context compaction triggered'' @ [CHR 0x0A])
                          1704164645)],
              faulty = (\<lambda>call. False),
              stderr = [Line ''[PreCompact] State saved before compaction'']\<rparr>
   \<and> pre_compact_main example_lib example_proc (sessions_world [])
       = Inr \<lparr>nodes = [(''/home/u/.claude/sessions'', Node Directory [] 0),
                       (''/home/u/.claude/sessions/compaction-log.txt'',
                        Node Regular
                          (''[2024-01-02 03:04:05] Context compaction triggered'' @ [CHR 0x0A])
                          1704164645)],
              faulty = (\<lambda>call. False),
              stderr = [Line ''[PreCompact] State saved before compaction'']\<rparr>"
proof -
  have a: "pre_compact_main example_lib example_proc
         (sessions_world [(current_marker, Node Regular ''mine'' 100),
                          (other_marker, Node Regular ''theirs'' 200)])
       = Inr \<lparr>nodes = [(''/home/u/.claude/sessions'', Node Directory [] 0),
                       (current_marker, Node Regular ''mine'' 100),
                       (other_marker,
                        Node Regular
                          (''theirs'' @ [CHR 0x0A] @ ''---'' @ [CHR 0x0A]
                           @ ''**[Compaction occurred at 03:04]** - Context was summarized''
                           @ [CHR 0x0A])
                          1704164645),
                       (''/home/u/.claude/sessions/compaction-log.txt'',
                        Node Regular
                          (''[2024-01-02 03:04:05] Context compaction triggered'' @ [CHR 0x0A])
                          1704164645)],
              faulty = (\<lambda>call. False),
              stderr = [Line ''[PreCompact] State saved before compaction'']\<rparr>"
    unfolding pre_compact_main_def example_session_paths example_compaction_paths
    using example_markers_distinct
    by (simp add: sessions_world_def mkdir_p_def append_text_def session_markers_def
        path_glob_def os_stat_def example_marker_names example_match suffix_to_prefix
        print_stderr_def)
  have b: "pre_compact_main example_lib example_proc (sessions_world [])
       = Inr \<lparr>nodes = [(''/home/u/.claude/sessions'', Node Directory [] 0),
                       (''/home/u/.claude/sessions/compaction-log.txt'',
                        Node Regular
                          (''[2024-01-02 03:04:05] Context compaction triggered'' @ [CHR 0x0A])
                          1704164645)],
              faulty = (\<lambda>call. False),
              stderr = [Line ''[PreCompact] State saved before compaction'']\<rparr>"
    unfolding pre_compact_main_def example_session_paths example_compaction_paths
    by (simp add: sessions_world_def mkdir_p_def append_text_def session_markers_def
        path_glob_def os_stat_def example_marker_names example_match suffix_to_prefix
        print_stderr_def)
  show ?thesis
    using a b example_session_paths(2) by simp
qed

lemma sort_key_head:
  assumes "sort_key f xs = y # ys"
  shows "y \<in> set xs \<and> (\<forall>x \<in> set xs. f y \<le> f x)"
proof -
  have s: "sorted (map f (sort_key f xs))" by (rule sorted_sort_key)
  have m: "set (sort_key f xs) = set xs" by simp
  from m assms have y: "y \<in> set xs" by auto
  from s assms have "\<forall>x \<in> set ys. f y \<le> f x" by simp
  with m assms have "\<forall>x \<in> set xs. f y \<le> f x" by auto
  with y show ?thesis by simp
qed

lemma stat_mtimes_ok:
  assumes "\<forall>q \<in> set ps. \<not> faulty w (SysStat q) \<and> map_of (nodes w) q \<noteq> None"
  shows "stat_mtimes w ps = Inr (map (\<lambda>q. (q, mtime (the (map_of (nodes w) q)))) ps)"
  using assms by (induction ps) (auto simp: os_stat_def)

lemma session_markers_newest:
  assumes sc: "\<not> faulty w (SysScandir (get_sessions_dir pr))"
      "\<not> faulty w (SysScandirDenied (get_sessions_dir pr))"
    and sd: "map_of (nodes w) (get_sessions_dir pr) = Some x" "kind x = Directory"
    and st: "\<forall>q n. map_of (nodes w) q = Some n \<and> is_marker lib pr q \<longrightarrow> \<not> faulty w (SysStat q)"
  shows "\<exists>ms. session_markers lib w (get_sessions_dir pr) = Inr ms
           \<and> (ms = [] \<longleftrightarrow> (\<forall>q n. map_of (nodes w) q = Some n \<longrightarrow> \<not> is_marker lib pr q))
           \<and> (\<forall>p rest. ms = p # rest \<longrightarrow>
                 (\<exists>n. map_of (nodes w) p = Some n \<and> is_marker lib pr p
                      \<and> (\<forall>q m. map_of (nodes w) q = Some m \<and> is_marker lib pr q
                            \<longrightarrow> mtime m \<le> mtime n)))"
proof -
  let ?d = "get_sessions_dir pr"
  define ps where "ps = filter (is_marker lib pr) (map fst (nodes w))"
  define keyed where "keyed = map (\<lambda>q. (q, mtime (the (map_of (nodes w) q)))) ps"
  define ms where "ms = map fst (sort_key (\<lambda>x. - snd x) keyed)"
  have mem: "q \<in> set ps \<longleftrightarrow> (\<exists>n. map_of (nodes w) q = Some n) \<and> is_marker lib pr q" for q
  proof -
    have "q \<in> fst ` set (nodes w) \<longleftrightarrow> (\<exists>n. map_of (nodes w) q = Some n)"
      using map_of_eq_None_iff [of "nodes w" q] by (cases "map_of (nodes w) q") simp_all
    then show ?thesis
      by (simp add: ps_def)
  qed
  have glob: "path_glob lib w ?d ''*-session.tmp'' = Inr ps"
  proof -
    have "is_marker lib pr
            = (\<lambda>q. path_parent q = ?d \<and> fnmatch lib ''*-session.tmp'' (path_name q))"
      by (simp add: fun_eq_iff is_marker_def)
    then show ?thesis
      using sc sd by (simp add: path_glob_def ps_def)
  qed
  have "\<forall>q \<in> set ps. \<not> faulty w (SysStat q) \<and> map_of (nodes w) q \<noteq> None"
    using st mem by auto
  from stat_mtimes_ok [OF this] have stat: "stat_mtimes w ps = Inr keyed"
    by (simp add: keyed_def)
  have sm: "session_markers lib w ?d = Inr ms"
    using glob stat by (simp add: session_markers_def ms_def)
  have empty: "ms = [] \<longleftrightarrow> (\<forall>q n. map_of (nodes w) q = Some n \<longrightarrow> \<not> is_marker lib pr q)"
  proof -
    have "length ms = length ps"
      by (simp add: ms_def keyed_def)
    then have e1: "ms = [] \<longleftrightarrow> ps = []"
      by (metis length_0_conv)
    have e2: "ps = [] \<longleftrightarrow> (\<forall>q. q \<notin> set ps)"
      by (cases ps) auto
    have e3: "(\<forall>q. q \<notin> set ps)
                \<longleftrightarrow> (\<forall>q n. map_of (nodes w) q = Some n \<longrightarrow> \<not> is_marker lib pr q)"
      unfolding mem by blast
    show ?thesis
      unfolding e1 e2 e3 by (rule refl)
  qed
  have head: "\<exists>n. map_of (nodes w) p = Some n \<and> is_marker lib pr p
                \<and> (\<forall>q m. map_of (nodes w) q = Some m \<and> is_marker lib pr q \<longrightarrow> mtime m \<le> mtime n)"
    if "ms = p # rest" for p rest
  proof -
    from that obtain y ys where sk: "sort_key (\<lambda>x. - snd x) keyed = y # ys" and y: "fst y = p"
      by (auto simp: ms_def)
    from sort_key_head [OF sk] have yk: "y \<in> set keyed"
      and mx: "\<forall>x \<in> set keyed. - snd y \<le> - snd x" by simp_all
    from yk y have p: "p \<in> set ps" and sy: "snd y = mtime (the (map_of (nodes w) p))"
      by (auto simp: keyed_def)
    from p mem obtain n where n: "map_of (nodes w) p = Some n" "is_marker lib pr p"
      by auto
    have "mtime m \<le> mtime n" if q: "map_of (nodes w) q = Some m" "is_marker lib pr q" for q m
    proof -
      from q mem have "q \<in> set ps" by auto
      then have "(q, mtime m) \<in> set keyed"
        using q(1) by (auto simp: keyed_def)
      with mx have "- snd y \<le> - mtime m" by auto
      then show ?thesis using sy n(1) by simp
    qed
    with n show ?thesis by auto
  qed
  show ?thesis
    using sm empty head by (intro exI [of _ ms]) blast
qed

lemma marker_not_written:
  assumes "is_marker lib pr q" "\<not> fnmatch lib ''*-session.tmp'' ''compaction-log.txt''"
  shows "q \<noteq> get_sessions_dir pr" "q \<noteq> compaction_log pr"
proof -
  have "get_sessions_dir pr \<noteq> []"
    by (simp add: get_sessions_dir_def path_join_def)
  from path_parent_shorter [OF this] have "path_parent (get_sessions_dir pr) \<noteq> get_sessions_dir pr"
    by auto
  with assms(1) show "q \<noteq> get_sessions_dir pr"
    by (auto simp: is_marker_def)
  have "path_name (compaction_log pr) = ''compaction-log.txt''"
    unfolding compaction_log_def by (rule path_name_join) simp
  with assms show "q \<noteq> compaction_log pr"
    by (auto simp: is_marker_def)
qed

lemma pre_compact_after_log:
  assumes u: "pre_compact_unhindered lib pr w"
  shows "\<exists>w1 w2. mkdir_p w (now pr) (get_sessions_dir pr) = Inr w1
           \<and> append_text w1 (now pr) (compaction_log pr) (compaction_line pr) = Inr w2
           \<and> faulty w2 = faulty w \<and> stderr w2 = stderr w
           \<and> map_of (nodes w2) (compaction_log pr)
               = Some (Node Regular
                         ((case map_of (nodes w) (compaction_log pr) of
                             None \<Rightarrow> [] | Some n \<Rightarrow> content n) @ compaction_line pr)
                         (now pr))
           \<and> (\<exists>x. map_of (nodes w2) (get_sessions_dir pr) = Some x \<and> kind x = Directory)
           \<and> (\<forall>q. q \<noteq> get_sessions_dir pr \<and> q \<noteq> compaction_log pr
                  \<longrightarrow> map_of (nodes w2) q = map_of (nodes w) q)"
proof -
  let ?sd = "get_sessions_dir pr" and ?log = "compaction_log pr"
  have ne: "?log \<noteq> ?sd"
    by (simp add: compaction_log_def path_join_neq_dir)
  from u obtain w1 where w1: "mkdir_p w (now pr) ?sd = Inr w1" "faulty w1 = faulty w"
      "stderr w1 = stderr w" "\<forall>p. p \<noteq> ?sd \<longrightarrow> map_of (nodes w1) p = map_of (nodes w) p"
      "\<exists>x. map_of (nodes w1) ?sd = Some x \<and> kind x = Directory"
    using mkdir_p_ok [of w ?sd "now pr"] by (auto simp: pre_compact_unhindered_def)
  have l1: "map_of (nodes w1) ?log = map_of (nodes w) ?log"
    using w1(4) ne by simp
  have nf: "\<not> faulty w1 (SysOpenAppend ?log)"
    using u w1(2) by (simp add: pre_compact_unhindered_def)
  have reg: "case map_of (nodes w1) ?log of None \<Rightarrow> True | Some d \<Rightarrow> kind d = Regular"
    using u l1 by (simp add: pre_compact_unhindered_def)
  from append_text_ok [OF nf reg, of "now pr" "compaction_line pr"] obtain w2 where
    w2: "append_text w1 (now pr) ?log (compaction_line pr) = Inr w2" "faulty w2 = faulty w1"
      "stderr w2 = stderr w1"
      "map_of (nodes w2) =
         (map_of (nodes w1))
           (?log \<mapsto> Node Regular ((case map_of (nodes w1) ?log of None \<Rightarrow> [] | Some n \<Rightarrow> content n)
                                    @ compaction_line pr) (now pr))"
    by blast
  show ?thesis
    using w1 w2 l1 ne by (intro exI [of _ w1] exI [of _ w2]) simp
qed

text \<open>
  Claim C7 (pre-compaction), as the code has it. When no system call of the hook fails,
  the compaction log holds its former content followed by the line of this event,
  whether or not a marker exists. The note goes to the marker of the sessions directory
  that was modified last, whatever its day and session: when the directory holds no
  marker, nothing but the log and the directory is written; when it holds one, a marker
  with the greatest modification time holds its former content followed by the note,
  and no other marker changes.
\<close>

theorem C7_pre_compact:
  assumes u: "pre_compact_unhindered lib pr w"
    and nolog: "\<not> fnmatch lib ''*-session.tmp'' ''compaction-log.txt''"
  shows "\<exists>w3. pre_compact_main lib pr w
                 = Inr (print_stderr w3 (Line ''[PreCompact] State saved before compaction''))
           \<and> map_of (nodes w3) (compaction_log pr)
               = Some (Node Regular
                         ((case map_of (nodes w) (compaction_log pr) of
                             None \<Rightarrow> [] | Some n \<Rightarrow> content n) @ compaction_line pr)
                         (now pr))
           \<and> ((\<forall>q n. map_of (nodes w) q = Some n \<longrightarrow> \<not> is_marker lib pr q) \<longrightarrow>
                (\<forall>q. q \<noteq> compaction_log pr \<and> q \<noteq> get_sessions_dir pr
                      \<longrightarrow> map_of (nodes w3) q = map_of (nodes w) q))
           \<and> ((\<exists>q n. map_of (nodes w) q = Some n \<and> is_marker lib pr q) \<longrightarrow>
                (\<exists>p n. map_of (nodes w) p = Some n \<and> is_marker lib pr p
                      \<and> (\<forall>q m. map_of (nodes w) q = Some m \<and> is_marker lib pr q
                             \<longrightarrow> mtime m \<le> mtime n)
                      \<and> map_of (nodes w3) p
                          = Some (Node Regular (content n @ compaction_note pr) (now pr))
                      \<and> (\<forall>q. q \<noteq> p \<and> q \<noteq> compaction_log pr \<and> q \<noteq> get_sessions_dir pr
                             \<longrightarrow> map_of (nodes w3) q = map_of (nodes w) q)))"
proof -
  let ?sd = "get_sessions_dir pr" and ?log = "compaction_log pr"
  let ?saved = "Line ''[PreCompact] State saved before compaction''"
  let ?logged = "Some (Node Regular
                         ((case map_of (nodes w) ?log of None \<Rightarrow> [] | Some n \<Rightarrow> content n)
                          @ compaction_line pr) (now pr))"
  from pre_compact_after_log [OF u] obtain w1 w2 where
    w1: "mkdir_p w (now pr) ?sd = Inr w1"
    and w2: "append_text w1 (now pr) ?log (compaction_line pr) = Inr w2"
    and f2: "faulty w2 = faulty w"
    and log2: "map_of (nodes w2) ?log = ?logged"
    and sd2: "\<exists>x. map_of (nodes w2) ?sd = Some x \<and> kind x = Directory"
    and same: "\<forall>q. q \<noteq> ?sd \<and> q \<noteq> ?log \<longrightarrow> map_of (nodes w2) q = map_of (nodes w) q"
    by blast
  have marker2: "map_of (nodes w2) q = map_of (nodes w) q" if "is_marker lib pr q" for q
    using marker_not_written [OF that nolog] same by simp
  have ok: "kind n = Regular \<and> \<not> faulty w (SysStat q) \<and> \<not> faulty w (SysOpenAppend q)"
    if "map_of (nodes w) q = Some n" "is_marker lib pr q" for q n
  proof -
    from that(1) have "(q, n) \<in> set (nodes w)" by (rule map_of_SomeD)
    with u that(2) show ?thesis
      by (auto simp: pre_compact_unhindered_def list_all_iff)
  qed
  from sd2 obtain x where x: "map_of (nodes w2) ?sd = Some x" "kind x = Directory" by blast
  have sc: "\<not> faulty w2 (SysScandir ?sd)" "\<not> faulty w2 (SysScandirDenied ?sd)"
    using u f2 by (simp_all add: pre_compact_unhindered_def)
  have st: "\<forall>q n. map_of (nodes w2) q = Some n \<and> is_marker lib pr q \<longrightarrow> \<not> faulty w2 (SysStat q)"
    using ok marker2 f2 by auto
  from session_markers_newest [OF sc x st] obtain ms where
    ms: "session_markers lib w2 ?sd = Inr ms"
    and empty: "ms = [] \<longleftrightarrow> (\<forall>q n. map_of (nodes w2) q = Some n \<longrightarrow> \<not> is_marker lib pr q)"
    and head: "\<forall>p rest. ms = p # rest \<longrightarrow>
                 (\<exists>n. map_of (nodes w2) p = Some n \<and> is_marker lib pr p
                      \<and> (\<forall>q m. map_of (nodes w2) q = Some m \<and> is_marker lib pr q
                            \<longrightarrow> mtime m \<le> mtime n))"
    by blast
  have empty': "ms = [] \<longleftrightarrow> (\<forall>q n. map_of (nodes w) q = Some n \<longrightarrow> \<not> is_marker lib pr q)"
    unfolding empty using marker2 by metis
  show ?thesis
  proof (cases ms)
    case Nil
    have main: "pre_compact_main lib pr w = Inr (print_stderr w2 ?saved)"
      using w1 w2 ms Nil by (simp add: pre_compact_main_def)
    have none: "\<not> (\<exists>q n. map_of (nodes w) q = Some n \<and> is_marker lib pr q)"
      using empty' Nil by blast
    show ?thesis
      using main log2 same none by (intro exI [of _ w2]) blast
  next
    case (Cons p rest)
    from head Cons obtain n where n: "map_of (nodes w2) p = Some n" "is_marker lib pr p"
      and newest: "\<forall>q m. map_of (nodes w2) q = Some m \<and> is_marker lib pr q \<longrightarrow> mtime m \<le> mtime n"
      by blast
    have n0: "map_of (nodes w) p = Some n"
      using n marker2 by simp
    have newest0: "\<forall>q m. map_of (nodes w) q = Some m \<and> is_marker lib pr q \<longrightarrow> mtime m \<le> mtime n"
      using newest marker2 by metis
    have pne: "p \<noteq> ?sd" "p \<noteq> ?log"
      using marker_not_written [OF n(2) nolog] by simp_all
    have nf: "\<not> faulty w2 (SysOpenAppend p)"
      using ok [OF n0 n(2)] f2 by simp
    have reg: "case map_of (nodes w2) p of None \<Rightarrow> True | Some d \<Rightarrow> kind d = Regular"
      using ok [OF n0 n(2)] n(1) by simp
    from append_text_ok [OF nf reg, of "now pr" "compaction_note pr"] obtain w3 where
      w3: "append_text w2 (now pr) p (compaction_note pr) = Inr w3"
        "map_of (nodes w3) =
           (map_of (nodes w2))
             (p \<mapsto> Node Regular ((case map_of (nodes w2) p of None \<Rightarrow> [] | Some n \<Rightarrow> content n)
                                 @ compaction_note pr) (now pr))"
      by blast
    have main: "pre_compact_main lib pr w = Inr (print_stderr w3 ?saved)"
      using w1 w2 ms Cons w3(1) by (simp add: pre_compact_main_def)
    have a: "map_of (nodes w3) ?log = ?logged"
      using w3(2) pne log2 by simp
    have b: "map_of (nodes w3) p = Some (Node Regular (content n @ compaction_note pr) (now pr))"
      using w3(2) n(1) by simp
    have c: "\<forall>q. q \<noteq> p \<and> q \<noteq> ?log \<and> q \<noteq> ?sd \<longrightarrow> map_of (nodes w3) q = map_of (nodes w) q"
      using w3(2) same by simp
    have some: "\<not> (\<forall>q n. map_of (nodes w) q = Some n \<longrightarrow> \<not> is_marker lib pr q)"
      using n0 n(2) by blast
    have d: "\<exists>p n. map_of (nodes w) p = Some n \<and> is_marker lib pr p
                      \<and> (\<forall>q m. map_of (nodes w) q = Some m \<and> is_marker lib pr q
                             \<longrightarrow> mtime m \<le> mtime n)
                      \<and> map_of (nodes w3) p
                          = Some (Node Regular (content n @ compaction_note pr) (now pr))
                      \<and> (\<forall>q. q \<noteq> p \<and> q \<noteq> ?log \<and> q \<noteq> ?sd
                             \<longrightarrow> map_of (nodes w3) q = map_of (nodes w) q)"
      using n0 n(2) newest0 b c by blast
    show ?thesis
      using main a some d by (intro exI [of _ w3]) blast
  qed
qed

theorem C7_pre_compact_witness:
  "\<exists>w3. pre_compact_main example_lib example_proc
            (sessions_world [(current_marker, Node Regular ''mine'' 100),
                             (other_marker, Node Regular ''theirs'' 200)])
          = Inr (print_stderr w3 (Line ''[PreCompact] State saved before compaction''))
       \<and> map_of (nodes w3) ''/home/u/.claude/sessions/compaction-log.txt''
           = Some (Node Regular
                     (''[2024-01-02 03:04:05] Context compaction triggered'' @ [CHR 0x0A])
                     1704164645)
       \<and> map_of (nodes w3) other_marker
           = Some (Node Regular
                     (''theirs'' @ [CHR 0x0A] @ ''---'' @ [CHR 0x0A]
                      @ ''**[Compaction occurred at 03:04]** - Context was summarized''
                      @ [CHR 0x0A])
                     1704164645)
       \<and> map_of (nodes w3) current_marker = Some (Node Regular ''mine'' 100)"
proof -
  let ?w = "sessions_world [(current_marker, Node Regular ''mine'' 100),
                            (other_marker, Node Regular ''theirs'' 200)]"
  let ?sd = "''/home/u/.claude/sessions''" and ?log = "''/home/u/.claude/sessions/compaction-log.txt''"
  note d = example_markers_distinct
  have mk: "is_marker example_lib example_proc current_marker"
      "is_marker example_lib example_proc other_marker"
      "\<not> is_marker example_lib example_proc ?sd"
    by (simp_all add: is_marker_def example_session_paths example_marker_names example_match
        suffix_to_prefix)
  have nolog: "\<not> fnmatch example_lib ''*-session.tmp'' ''compaction-log.txt''"
    by (simp add: example_match suffix_to_prefix)
  have u: "pre_compact_unhindered example_lib example_proc ?w"
    using d mk by (simp add: pre_compact_unhindered_def example_session_paths
        example_compaction_paths sessions_world_def)
  have look: "map_of (nodes ?w) current_marker = Some (Node Regular ''mine'' 100)"
      "map_of (nodes ?w) other_marker = Some (Node Regular ''theirs'' 200)"
      "map_of (nodes ?w) ?log = None"
    using d by (simp_all add: sessions_world_def)
  have keys: "q = ?sd \<or> q = current_marker \<or> q = other_marker" if "map_of (nodes ?w) q = Some n" for q n
    using that by (auto simp: sessions_world_def split: if_splits)
  have ex: "\<exists>q n. map_of (nodes ?w) q = Some n \<and> is_marker example_lib example_proc q"
    using look(1) mk(1) by blast
  from C7_pre_compact [OF u nolog] ex obtain w3 p n where
    main: "pre_compact_main example_lib example_proc ?w
             = Inr (print_stderr w3 (Line ''[PreCompact] State saved before compaction''))"
    and lg: "map_of (nodes w3) (compaction_log example_proc)
               = Some (Node Regular
                         ((case map_of (nodes ?w) (compaction_log example_proc) of
                             None \<Rightarrow> [] | Some n \<Rightarrow> content n) @ compaction_line example_proc)
                         (now example_proc))"
    and p: "map_of (nodes ?w) p = Some n" "is_marker example_lib example_proc p"
    and newest: "\<forall>q m. map_of (nodes ?w) q = Some m \<and> is_marker example_lib example_proc q
                   \<longrightarrow> mtime m \<le> mtime n"
    and noted: "map_of (nodes w3) p
                 = Some (Node Regular (content n @ compaction_note example_proc) (now example_proc))"
    and rest: "\<forall>q. q \<noteq> p \<and> q \<noteq> compaction_log example_proc \<and> q \<noteq> get_sessions_dir example_proc
                 \<longrightarrow> map_of (nodes w3) q = map_of (nodes ?w) q"
    by blast
  from newest look(2) mk(2) have "200 \<le> mtime n" by fastforce
  moreover from keys [OF p(1)] p(2) mk(3) have "p = current_marker \<or> p = other_marker" by auto
  ultimately have pe: "p = other_marker"
    using p(1) look(1) by auto
  then have n: "n = Node Regular ''theirs'' 200"
    using p(1) look(2) by simp
  have a: "map_of (nodes w3) ?log
             = Some (Node Regular
                       (''[2024-01-02 03:04:05] Context compaction triggered'' @ [CHR 0x0A])
                       1704164645)"
    using lg look(3) by (simp add: example_compaction_paths)
  have b: "map_of (nodes w3) other_marker
             = Some (Node Regular
                       (''theirs'' @ [CHR 0x0A] @ ''---'' @ [CHR 0x0A]
                        @ ''**[Compaction occurred at 03:04]** - Context was summarized''
                        @ [CHR 0x0A])
                       1704164645)"
    using noted pe n by (simp add: example_compaction_paths)
  have c: "map_of (nodes w3) current_marker = Some (Node Regular ''mine'' 100)"
    using rest pe d look(1) by (simp add: example_compaction_paths example_session_paths)
  show ?thesis
    using main a b c by (intro exI [of _ w3]) simp
qed

end
